theory Spec2Isabelle
  imports Complex_Main "HOL-Library.Sublist"
begin

section \<open>Reaction-field forces of \<open>openmmtools/forces.py\<close>\<close>

text \<open>
  The module has two search functions over the forces of a system and two classes
  deriving from the engine's \<open>CustomNonbondedForce\<close>. Python floats are modelled as
  \<^typ>\<open>real\<close> (no rounding, no overflow, no NaN); every exception the module can raise
  is a value of \<open>py_error\<close>, and a function that can raise returns \<open>py_error + 'a\<close>.
\<close>

subsection \<open>Exceptions\<close>

datatype py_error =
    ValueError string
  | ZeroDivisionError
  | AttributeError
  | OpenMMException

subsection \<open>Quantities with units (\<open>simtk.unit\<close>)\<close>

text \<open>
  The cutoff distance and the switch width are quantities "in units of distance": a
  number and a length unit. \<open>nanometers_per u\<close> is the length of one \<open>u\<close> in
  nanometers, the length unit of \<open>unit.md_unit_system\<close>.
\<close>

datatype length_unit = nanometer | angstrom

fun nanometers_per :: "length_unit \<Rightarrow> real" where
  "nanometers_per nanometer = 1"
| "nanometers_per angstrom = 1 / 10"

record distance =
  dvalue :: real
  dunit :: length_unit

text \<open>
  A power of a distance, such as \<open>cutoff_distance**(-3)\<close>, is a quantity whose unit
  is a length unit raised to an integer exponent.
\<close>

record quantity =
  qvalue :: real
  qbase :: length_unit
  qexp :: int

text \<open>\<open>Quantity.__pow__\<close>: Python raises when zero gets a negative exponent.\<close>

definition distance_pow :: "distance \<Rightarrow> int \<Rightarrow> py_error + quantity" where
  "distance_pow q n =
     (if dvalue q = 0 \<and> n < 0 then Inl ZeroDivisionError
      else Inr \<lparr>qvalue = dvalue q powi n, qbase = dunit q, qexp = n\<rparr>)"

text \<open>\<open>Quantity.__mul__\<close> and \<open>Quantity.__truediv__\<close> with a plain float.\<close>

definition quantity_mul :: "quantity \<Rightarrow> real \<Rightarrow> quantity" where
  "quantity_mul q x = q\<lparr>qvalue := qvalue q * x\<rparr>"

definition quantity_truediv :: "quantity \<Rightarrow> real \<Rightarrow> py_error + quantity" where
  "quantity_truediv q x =
     (if x = 0 then Inl ZeroDivisionError else Inr (q\<lparr>qvalue := qvalue q / x\<rparr>))"

text \<open>\<open>Quantity.value_in_unit_system(unit.md_unit_system)\<close>: the number in nanometers
  to the quantity's exponent.\<close>

definition value_in_md_unit_system :: "quantity \<Rightarrow> real" where
  "value_in_md_unit_system q = qvalue q * nanometers_per (qbase q) powi qexp q"

text \<open>\<open>Quantity.__sub__\<close> of two distances: the result is in the unit of the left
  operand.\<close>

definition distance_sub :: "distance \<Rightarrow> distance \<Rightarrow> distance" where
  "distance_sub a b =
     \<lparr>dvalue = dvalue a - dvalue b * nanometers_per (dunit b) / nanometers_per (dunit a),
      dunit = dunit a\<rparr>"

text \<open>The engine's setters take a distance and store its number of nanometers.\<close>

definition distance_in_nanometers :: "distance \<Rightarrow> real" where
  "distance_in_nanometers q = dvalue q * nanometers_per (dunit q)"

subsection \<open>The format specification \<open>{:f}\<close>\<close>

text \<open>
  \<open>"{:f}".format(x)\<close> prints \<open>x\<close> in fixed point with six digits after the point,
  rounded half to even, with a minus sign for a negative number.
\<close>

definition round_half_even :: "real \<Rightarrow> int" where
  "round_half_even x =
     (let f = \<lfloor>x\<rfloor>; r = x - of_int f
      in if r < 1 / 2 then f else if 1 / 2 < r then f + 1
         else if even f then f else f + 1)"

definition digit_char :: "nat \<Rightarrow> char" where
  "digit_char n = ''0123456789'' ! (n mod 10)"

function decimal_digits :: "nat \<Rightarrow> string" where
  "decimal_digits n =
     (if n < 10 then [digit_char n] else decimal_digits (n div 10) @ [digit_char (n mod 10)])"
  by pat_completeness auto
termination
  by (relation "measure (\<lambda>n. n)") auto

declare decimal_digits.simps [simp del]

definition format_f :: "real \<Rightarrow> string" where
  "format_f x =
     (let n = nat (round_half_even (\<bar>x\<bar> * 10 ^ 6))
      in (if x < 0 then ''-'' else '''') @ decimal_digits (n div 10 ^ 6) @ ''.'' @
         map (\<lambda>k. digit_char (n div 10 ^ k)) [5, 4, 3, 2, 1, 0])"

subsection \<open>The engine's force objects\<close>

text \<open>
  \<open>openmm.NonbondedForce\<close> as the module reads it: the cutoff distance (the engine
  keeps nanometers), the reaction-field dielectric, the particles \<open>(charge, sigma,
  epsilon)\<close> and the exceptions \<open>(iatom, jatom, chargeprod, sigma, epsilon)\<close>.
\<close>

record nonbonded_force =
  nb_cutoffDistance :: real
  nb_reactionFieldDielectric :: real
  nb_particles :: "(real \<times> real \<times> real) list"
  nb_exceptions :: "(int \<times> int \<times> real \<times> real \<times> real) list"

definition getCutoffDistance :: "nonbonded_force \<Rightarrow> distance" where
  "getCutoffDistance nb = \<lparr>dvalue = nb_cutoffDistance nb, dunit = nanometer\<rparr>"

definition getReactionFieldDielectric :: "nonbonded_force \<Rightarrow> real" where
  "getReactionFieldDielectric nb = nb_reactionFieldDielectric nb"

definition getNumParticles :: "nonbonded_force \<Rightarrow> nat" where
  "getNumParticles nb = length (nb_particles nb)"

definition getNumExceptions :: "nonbonded_force \<Rightarrow> nat" where
  "getNumExceptions nb = length (nb_exceptions nb)"

text \<open>The engine refuses an index that is out of range.\<close>

definition getParticleParameters ::
  "nonbonded_force \<Rightarrow> nat \<Rightarrow> py_error + (real \<times> real \<times> real)" where
  "getParticleParameters nb i =
     (if i < length (nb_particles nb) then Inr (nb_particles nb ! i) else Inl OpenMMException)"

definition getExceptionParameters ::
  "nonbonded_force \<Rightarrow> nat \<Rightarrow> py_error + (int \<times> int \<times> real \<times> real \<times> real)" where
  "getExceptionParameters nb i =
     (if i < length (nb_exceptions nb) then Inr (nb_exceptions nb ! i) else Inl OpenMMException)"

text \<open>
  \<open>openmm.CustomNonbondedForce\<close>, the base class of both reaction-field forces: the
  energy expression, the names of the per-particle parameters, the configuration the
  setters write, the particles (one parameter list each) and the exclusions.
\<close>

datatype nonbonded_method = NoCutoff | CutoffNonPeriodic | CutoffPeriodic

record custom_nonbonded_force =
  energyFunction :: string
  perParticleParameters :: "string list"
  nonbondedMethod :: nonbonded_method
  cutoffDistance :: real
  switchingDistance :: real
  useSwitchingFunction :: bool
  useLongRangeCorrection :: bool
  particles :: "real list list"
  exclusions :: "(int \<times> int) list"

text \<open>The base class constructor, with the engine's defaults.\<close>

definition CustomNonbondedForce_init :: "string \<Rightarrow> custom_nonbonded_force" where
  "CustomNonbondedForce_init energy =
     \<lparr>energyFunction = energy, perParticleParameters = [], nonbondedMethod = NoCutoff,
      cutoffDistance = 1, switchingDistance = - 1, useSwitchingFunction = False,
      useLongRangeCorrection = False, particles = [], exclusions = []\<rparr>"

definition addPerParticleParameter ::
  "custom_nonbonded_force \<Rightarrow> string \<Rightarrow> custom_nonbonded_force" where
  "addPerParticleParameter f name = f\<lparr>perParticleParameters := perParticleParameters f @ [name]\<rparr>"

definition setNonbondedMethod ::
  "custom_nonbonded_force \<Rightarrow> nonbonded_method \<Rightarrow> custom_nonbonded_force" where
  "setNonbondedMethod f m = f\<lparr>nonbondedMethod := m\<rparr>"

definition setCutoffDistance :: "custom_nonbonded_force \<Rightarrow> distance \<Rightarrow> custom_nonbonded_force" where
  "setCutoffDistance f q = f\<lparr>cutoffDistance := distance_in_nanometers q\<rparr>"

definition setUseLongRangeCorrection :: "custom_nonbonded_force \<Rightarrow> bool \<Rightarrow> custom_nonbonded_force" where
  "setUseLongRangeCorrection f b = f\<lparr>useLongRangeCorrection := b\<rparr>"

definition setUseSwitchingFunction :: "custom_nonbonded_force \<Rightarrow> bool \<Rightarrow> custom_nonbonded_force" where
  "setUseSwitchingFunction f b = f\<lparr>useSwitchingFunction := b\<rparr>"

definition setSwitchingDistance :: "custom_nonbonded_force \<Rightarrow> distance \<Rightarrow> custom_nonbonded_force" where
  "setSwitchingDistance f q = f\<lparr>switchingDistance := distance_in_nanometers q\<rparr>"

definition addParticle :: "custom_nonbonded_force \<Rightarrow> real list \<Rightarrow> custom_nonbonded_force" where
  "addParticle f params = f\<lparr>particles := particles f @ [params]\<rparr>"

definition addExclusion :: "custom_nonbonded_force \<Rightarrow> int \<Rightarrow> int \<Rightarrow> custom_nonbonded_force" where
  "addExclusion f i j = f\<lparr>exclusions := exclusions f @ [(i, j)]\<rparr>"

text \<open>
  A system holds its forces in registration order. \<open>isinstance(force,
  openmm.NonbondedForce)\<close> holds of the first constructor only: the reaction-field
  classes derive from \<open>CustomNonbondedForce\<close>.
\<close>

datatype force =
    NonbondedForce nonbonded_force
  | CustomNonbondedForce custom_nonbonded_force
  | OtherForce string

datatype system = System (getForces: "force list")

subsection \<open>Utility functions\<close>

text \<open>
  \<open>find_nonbonded_force\<close>: the loop over \<open>system.getForces()\<close>, with the local
  variable \<open>nonbonded_force\<close> (\<open>None\<close> at first) as the accumulator.
\<close>

fun find_nonbonded_force_loop ::
  "force list \<Rightarrow> nonbonded_force option \<Rightarrow> py_error + nonbonded_force option" where
  "find_nonbonded_force_loop [] nonbonded_force = Inr nonbonded_force"
| "find_nonbonded_force_loop (NonbondedForce nb # fs) nonbonded_force =
     (if nonbonded_force \<noteq> None then Inl (ValueError ''The System has multiple NonbondedForces'')
      else find_nonbonded_force_loop fs (Some nb))"
| "find_nonbonded_force_loop (_ # fs) nonbonded_force = find_nonbonded_force_loop fs nonbonded_force"

definition find_nonbonded_force :: "system \<Rightarrow> py_error + nonbonded_force option" where
  "find_nonbonded_force sys = find_nonbonded_force_loop (getForces sys) None"

text \<open>
  \<open>iterate_nonbonded_forces\<close> is a generator. Its state is the part of the force list
  not yet visited; \<open>generator_next\<close> runs it to the next \<open>yield\<close> (the value and the new
  state) or to its end (\<open>None\<close>, Python's \<open>StopIteration\<close>). The sequence it yields is
  what repeated \<open>generator_next\<close> returns.
\<close>

fun generator_next :: "force list \<Rightarrow> (nonbonded_force \<times> force list) option" where
  "generator_next [] = None"
| "generator_next (NonbondedForce nb # fs) = Some (nb, fs)"
| "generator_next (_ # fs) = generator_next fs"

lemma generator_next_shorter: "generator_next fs = Some (nb, rest) \<Longrightarrow> length rest < length fs"
  by (induction fs rule: generator_next.induct) auto

function generator_drain :: "force list \<Rightarrow> nonbonded_force list" where
  "generator_drain fs =
     (case generator_next fs of None \<Rightarrow> [] | Some (nb, rest) \<Rightarrow> nb # generator_drain rest)"
  by pat_completeness auto
termination
  by (relation "measure length") (auto dest: generator_next_shorter)

definition iterate_nonbonded_forces :: "system \<Rightarrow> nonbonded_force list" where
  "iterate_nonbonded_forces sys = generator_drain (getForces sys)"

subsection \<open>Reaction field\<close>

text \<open>
  The constant \<open>ONE_4PI_EPS0\<close> is imported from \<open>openmmtools.constants\<close>; it is a
  parameter of the constructors here.

  The local variable \<open>k_rf\<close> of \<open>UnshiftedReactionFieldForce.__init__\<close>:
  \<open>cutoff_distance**(-3) * (reaction_field_dielectric - 1.0) / (2.0*reaction_field_dielectric + 1.0)\<close>.
\<close>

definition UnshiftedReactionFieldForce_k_rf :: "distance \<Rightarrow> real \<Rightarrow> py_error + quantity" where
  "UnshiftedReactionFieldForce_k_rf cutoff_distance reaction_field_dielectric =
     (case distance_pow cutoff_distance (- 3) of
        Inl e \<Rightarrow> Inl e
      | Inr p \<Rightarrow>
          quantity_truediv (quantity_mul p (reaction_field_dielectric - 1))
            (2 * reaction_field_dielectric + 1))"

definition UnshiftedReactionFieldForce_init ::
  "real \<Rightarrow> distance \<Rightarrow> distance option \<Rightarrow> real \<Rightarrow> py_error + custom_nonbonded_force" where
  "UnshiftedReactionFieldForce_init ONE_4PI_EPS0 cutoff_distance switch_width reaction_field_dielectric =
     (case UnshiftedReactionFieldForce_k_rf cutoff_distance reaction_field_dielectric of
        Inl e \<Rightarrow> Inl e
      | Inr k_rf \<Rightarrow>
          (let energy_expression =
                 ''ONE_4PI_EPS0*chargeprod*(r^(-1) + k_rf*r^2);'' @
                 ''chargeprod = charge1*charge2;'' @
                 ''k_rf = '' @ format_f (value_in_md_unit_system k_rf) @ '';'' @
                 ''ONE_4PI_EPS0 = '' @ format_f ONE_4PI_EPS0 @ '';'';
               self = CustomNonbondedForce_init energy_expression;
               self = addPerParticleParameter self ''charge'';
               self = setNonbondedMethod self CutoffPeriodic;
               self = setCutoffDistance self cutoff_distance;
               self = setUseLongRangeCorrection self False
           in Inr (case switch_width of
                     Some w \<Rightarrow>
                       setSwitchingDistance (setUseSwitchingFunction self True)
                         (distance_sub cutoff_distance w)
                   | None \<Rightarrow> setUseSwitchingFunction self False)))"

text \<open>
  The two loops of \<open>from_nonbonded_force\<close>, over \<open>range(getNumParticles())\<close> and
  \<open>range(getNumExceptions())\<close>; both classes have the same text.
\<close>

fun copy_particle_charges ::
  "nonbonded_force \<Rightarrow> nat list \<Rightarrow> custom_nonbonded_force \<Rightarrow> py_error + custom_nonbonded_force" where
  "copy_particle_charges nb [] reaction_field_force = Inr reaction_field_force"
| "copy_particle_charges nb (particle_index # rest) reaction_field_force =
     (case getParticleParameters nb particle_index of
        Inl e \<Rightarrow> Inl e
      | Inr (charge, sigma, epsilon) \<Rightarrow>
          copy_particle_charges nb rest (addParticle reaction_field_force [charge]))"

fun copy_exclusions ::
  "nonbonded_force \<Rightarrow> nat list \<Rightarrow> custom_nonbonded_force \<Rightarrow> py_error + custom_nonbonded_force" where
  "copy_exclusions nb [] reaction_field_force = Inr reaction_field_force"
| "copy_exclusions nb (exception_index # rest) reaction_field_force =
     (case getExceptionParameters nb exception_index of
        Inl e \<Rightarrow> Inl e
      | Inr (iatom, jatom, chargeprod, sigma, epsilon) \<Rightarrow>
          copy_exclusions nb rest (addExclusion reaction_field_force iatom jatom))"

text \<open>
  The argument of \<open>from_nonbonded_force\<close> is a Python reference, which may be \<open>None\<close>:
  then \<open>nonbonded_force.getCutoffDistance()\<close> raises \<open>AttributeError\<close>.
\<close>

definition UnshiftedReactionFieldForce_from_nonbonded_force ::
  "real \<Rightarrow> nonbonded_force option \<Rightarrow> distance option \<Rightarrow> py_error + custom_nonbonded_force" where
  "UnshiftedReactionFieldForce_from_nonbonded_force ONE_4PI_EPS0 nonbonded_force switch_width =
     (case nonbonded_force of
        None \<Rightarrow> Inl AttributeError
      | Some nb \<Rightarrow>
          (let cutoff_distance = getCutoffDistance nb;
               reaction_field_dielectric = getReactionFieldDielectric nb
           in case UnshiftedReactionFieldForce_init ONE_4PI_EPS0 cutoff_distance switch_width
                     reaction_field_dielectric of
                Inl e \<Rightarrow> Inl e
              | Inr reaction_field_force \<Rightarrow>
                  (case copy_particle_charges nb [0..<getNumParticles nb] reaction_field_force of
                     Inl e \<Rightarrow> Inl e
                   | Inr reaction_field_force \<Rightarrow>
                       copy_exclusions nb [0..<getNumExceptions nb] reaction_field_force)))"

definition UnshiftedReactionFieldForce_from_system ::
  "real \<Rightarrow> system \<Rightarrow> distance option \<Rightarrow> py_error + custom_nonbonded_force" where
  "UnshiftedReactionFieldForce_from_system ONE_4PI_EPS0 sys switch_width =
     (case find_nonbonded_force sys of
        Inl e \<Rightarrow> Inl e
      | Inr nonbonded_force \<Rightarrow>
          UnshiftedReactionFieldForce_from_nonbonded_force ONE_4PI_EPS0 nonbonded_force switch_width)"

text \<open>
  \<open>SwitchedReactionFieldForce\<close>: the same, with the local variable \<open>c_rf\<close>,
  \<open>cutoff_distance**(-1) * (3*reaction_field_dielectric) / (2.0*reaction_field_dielectric + 1.0)\<close>,
  in the energy expression.
\<close>

definition SwitchedReactionFieldForce_k_rf :: "distance \<Rightarrow> real \<Rightarrow> py_error + quantity" where
  "SwitchedReactionFieldForce_k_rf cutoff_distance reaction_field_dielectric =
     (case distance_pow cutoff_distance (- 3) of
        Inl e \<Rightarrow> Inl e
      | Inr p \<Rightarrow>
          quantity_truediv (quantity_mul p (reaction_field_dielectric - 1))
            (2 * reaction_field_dielectric + 1))"

definition SwitchedReactionFieldForce_c_rf :: "distance \<Rightarrow> real \<Rightarrow> py_error + quantity" where
  "SwitchedReactionFieldForce_c_rf cutoff_distance reaction_field_dielectric =
     (case distance_pow cutoff_distance (- 1) of
        Inl e \<Rightarrow> Inl e
      | Inr p \<Rightarrow>
          quantity_truediv (quantity_mul p (3 * reaction_field_dielectric))
            (2 * reaction_field_dielectric + 1))"

definition SwitchedReactionFieldForce_init ::
  "real \<Rightarrow> distance \<Rightarrow> distance option \<Rightarrow> real \<Rightarrow> py_error + custom_nonbonded_force" where
  "SwitchedReactionFieldForce_init ONE_4PI_EPS0 cutoff_distance switch_width reaction_field_dielectric =
     (case SwitchedReactionFieldForce_k_rf cutoff_distance reaction_field_dielectric of
        Inl e \<Rightarrow> Inl e
      | Inr k_rf \<Rightarrow>
     (case SwitchedReactionFieldForce_c_rf cutoff_distance reaction_field_dielectric of
        Inl e \<Rightarrow> Inl e
      | Inr c_rf \<Rightarrow>
          (let energy_expression =
                 ''ONE_4PI_EPS0*chargeprod*(r^(-1) + k_rf*r^2 - c_rf);'' @
                 ''chargeprod = charge1*charge2;'' @
                 ''k_rf = '' @ format_f (value_in_md_unit_system k_rf) @ '';'' @
                 ''c_rf = '' @ format_f (value_in_md_unit_system c_rf) @ '';'' @
                 ''ONE_4PI_EPS0 = '' @ format_f ONE_4PI_EPS0 @ '';'';
               self = CustomNonbondedForce_init energy_expression;
               self = addPerParticleParameter self ''charge'';
               self = setNonbondedMethod self CutoffPeriodic;
               self = setCutoffDistance self cutoff_distance;
               self = setUseLongRangeCorrection self False
           in Inr (case switch_width of
                     Some w \<Rightarrow>
                       setSwitchingDistance (setUseSwitchingFunction self True)
                         (distance_sub cutoff_distance w)
                   | None \<Rightarrow> setUseSwitchingFunction self False))))"

definition SwitchedReactionFieldForce_from_nonbonded_force ::
  "real \<Rightarrow> nonbonded_force option \<Rightarrow> distance option \<Rightarrow> py_error + custom_nonbonded_force" where
  "SwitchedReactionFieldForce_from_nonbonded_force ONE_4PI_EPS0 nonbonded_force switch_width =
     (case nonbonded_force of
        None \<Rightarrow> Inl AttributeError
      | Some nb \<Rightarrow>
          (let cutoff_distance = getCutoffDistance nb;
               reaction_field_dielectric = getReactionFieldDielectric nb
           in case SwitchedReactionFieldForce_init ONE_4PI_EPS0 cutoff_distance switch_width
                     reaction_field_dielectric of
                Inl e \<Rightarrow> Inl e
              | Inr reaction_field_force \<Rightarrow>
                  (case copy_particle_charges nb [0..<getNumParticles nb] reaction_field_force of
                     Inl e \<Rightarrow> Inl e
                   | Inr reaction_field_force \<Rightarrow>
                       copy_exclusions nb [0..<getNumExceptions nb] reaction_field_force)))"

definition SwitchedReactionFieldForce_from_system ::
  "real \<Rightarrow> system \<Rightarrow> distance option \<Rightarrow> py_error + custom_nonbonded_force" where
  "SwitchedReactionFieldForce_from_system ONE_4PI_EPS0 sys switch_width =
     (case find_nonbonded_force sys of
        Inl e \<Rightarrow> Inl e
      | Inr nonbonded_force \<Rightarrow>
          SwitchedReactionFieldForce_from_nonbonded_force ONE_4PI_EPS0 nonbonded_force switch_width)"

subsection \<open>Binary64 numbers in the engine\<close>

text \<open>
  The engine keeps a cutoff distance as a binary64 number of nanometers, and a Python
  float is a binary64 number. Such a number is an integer significand times a power of
  two. \<open>binary64_round m e\<close> is the binary64 number nearest to \<open>m \<cdot> 2^e\<close>, ties to the
  even significand: the significand is cut to 53 bits (the exponent range is not
  modelled). \<open>binary64_mul\<close> is the floating-point product.
\<close>

record binary64 =
  significand :: int
  exponent :: int

definition binary64_value :: "binary64 \<Rightarrow> real" where
  "binary64_value x = of_int (significand x) * 2 powi exponent x"

fun bit_length :: "nat \<Rightarrow> nat" where
  "bit_length n = (if n = 0 then 0 else Suc (bit_length (n div 2)))"

declare bit_length.simps [simp del]

definition shift_round_half_even :: "int \<Rightarrow> nat \<Rightarrow> int" where
  "shift_round_half_even m s =
     (let q = m div 2 ^ s; r = m mod 2 ^ s
      in if 2 * r < 2 ^ s then q else if 2 ^ s < 2 * r then q + 1
         else if even q then q else q + 1)"

definition binary64_round :: "int \<Rightarrow> int \<Rightarrow> binary64" where
  "binary64_round m e =
     (let s = bit_length (nat \<bar>m\<bar>) - 53
      in \<lparr>significand = sgn m * shift_round_half_even \<bar>m\<bar> s, exponent = e + int s\<rparr>)"

definition binary64_mul :: "binary64 \<Rightarrow> binary64 \<Rightarrow> binary64" where
  "binary64_mul a b = binary64_round (significand a * significand b) (exponent a + exponent b)"

text \<open>Python's \<open>0.1\<close>, the binary64 number nearest to 1/10: \<open>0x1.999999999999ap-4\<close>.\<close>

definition binary64_tenth :: binary64 where
  "binary64_tenth = \<lparr>significand = 3602879701896397, exponent = - 55\<rparr>"

text \<open>
  The number of nanometers the engine holds, and \<open>getCutoffDistance\<close> reports, for a
  cutoff that was set as a quantity: the number itself for nanometers, the
  floating-point product of the number and \<open>0.1\<close> for angstroms.
\<close>

fun stored_nanometers :: "binary64 \<Rightarrow> length_unit \<Rightarrow> real" where
  "stored_nanometers x nanometer = binary64_value x"
| "stored_nanometers x angstrom = binary64_value (binary64_mul x binary64_tenth)"

subsection \<open>The coefficients as the specification writes them\<close>

text \<open>
  \<open>k_rf = cutoff^-3 \<cdot> (dielectric - 1) / (2\<cdot>dielectric + 1)\<close> and
  \<open>c_rf = cutoff^-1 \<cdot> 3\<cdot>dielectric / (2\<cdot>dielectric + 1)\<close>, as functions of the
  cutoff's number of nanometers and of the dielectric. The constructors are compared
  with them below.
\<close>

definition k_rf_formula :: "real \<Rightarrow> real \<Rightarrow> real" where
  "k_rf_formula cutoff dielectric = cutoff powi (- 3) * (dielectric - 1) / (2 * dielectric + 1)"

definition c_rf_formula :: "real \<Rightarrow> real \<Rightarrow> real" where
  "c_rf_formula cutoff dielectric = cutoff powi (- 1) * (3 * dielectric) / (2 * dielectric + 1)"

section \<open>Properties\<close>

subsection \<open>The search functions\<close>

text \<open>
  The nonbonded forces of a system, in registration order, are
  \<open>[nb. NonbondedForce nb \<leftarrow> getForces sys]\<close>. The loop of \<open>find_nonbonded_force\<close>
  is characterised for any value of its accumulator.
\<close>

lemma find_nonbonded_force_loop_eq:
  "find_nonbonded_force_loop fs acc =
     (case acc of
        None \<Rightarrow>
          (case [nb. NonbondedForce nb \<leftarrow> fs] of
             [] \<Rightarrow> Inr None
           | [nb] \<Rightarrow> Inr (Some nb)
           | _ \<Rightarrow> Inl (ValueError ''The System has multiple NonbondedForces''))
      | Some a \<Rightarrow>
          (case [nb. NonbondedForce nb \<leftarrow> fs] of
             [] \<Rightarrow> Inr (Some a)
           | _ \<Rightarrow> Inl (ValueError ''The System has multiple NonbondedForces'')))"
  by (induction fs acc rule: find_nonbonded_force_loop.induct)
     (auto split: option.splits list.splits)

lemma find_nonbonded_force_eq:
  "find_nonbonded_force sys =
     (case [nb. NonbondedForce nb \<leftarrow> getForces sys] of
        [] \<Rightarrow> Inr None
      | [nb] \<Rightarrow> Inr (Some nb)
      | _ \<Rightarrow> Inl (ValueError ''The System has multiple NonbondedForces''))"
  by (simp add: find_nonbonded_force_def find_nonbonded_force_loop_eq)

text \<open>
  C1. \<open>find_nonbonded_force\<close> returns the nonbonded force of a system that has exactly
  one, raises the error for several nonbonded forces (\<open>ValueError('The System has
  multiple NonbondedForces')\<close> in the source) when the system has two or more, and
  returns \<open>None\<close> without an error when the system has none.
\<close>

theorem find_nonbonded_force_result:
  "find_nonbonded_force sys =
     (case [nb. NonbondedForce nb \<leftarrow> getForces sys] of
        [] \<Rightarrow> Inr None
      | [nb] \<Rightarrow> Inr (Some nb)
      | nb # nb' # rest \<Rightarrow> Inl (ValueError ''The System has multiple NonbondedForces''))"
  by (simp add: find_nonbonded_force_eq split: list.splits)

text \<open>The generator, one force of the list at a time.\<close>

declare generator_drain.simps [simp del]

lemma generator_drain_Nil: "generator_drain [] = []"
  by (subst generator_drain.simps) simp

lemma generator_drain_Cons:
  "generator_drain (f # fs) =
     (case f of NonbondedForce nb \<Rightarrow> nb # generator_drain fs | _ \<Rightarrow> generator_drain fs)"
proof (cases f)
  case (NonbondedForce nb)
  then show ?thesis by (subst generator_drain.simps) simp
next
  case (CustomNonbondedForce c)
  then show ?thesis
    by (subst generator_drain.simps, subst (2) generator_drain.simps) simp
next
  case (OtherForce s)
  then show ?thesis
    by (subst generator_drain.simps, subst (2) generator_drain.simps) simp
qed

lemma generator_drain_eq: "generator_drain fs = [nb. NonbondedForce nb \<leftarrow> fs]"
  by (induction fs) (simp_all add: generator_drain_Nil generator_drain_Cons split: force.splits)

lemma nonbonded_forces_filter:
  "map NonbondedForce [nb. NonbondedForce nb \<leftarrow> fs] =
     filter (\<lambda>f. \<exists>nb. f = NonbondedForce nb) fs"
  by (induction fs) (auto split: force.splits)

text \<open>
  C7. \<open>iterate_nonbonded_forces\<close> yields exactly the nonbonded forces of the system, in
  registration order: the sequence it yields is the force list with every other force
  removed, so it has N elements for a system with N nonbonded forces and none for N = 0.
  The generator is total (it cannot raise) and only reads the system, which is a value
  here.
\<close>

theorem iterate_nonbonded_forces_yields:
  "iterate_nonbonded_forces sys = [nb. NonbondedForce nb \<leftarrow> getForces sys] \<and>
   map NonbondedForce (iterate_nonbonded_forces sys) =
     filter (\<lambda>f. \<exists>nb. f = NonbondedForce nb) (getForces sys) \<and>
   subseq (map NonbondedForce (iterate_nonbonded_forces sys)) (getForces sys) \<and>
   length (iterate_nonbonded_forces sys) =
     length (filter (\<lambda>f. \<exists>nb. f = NonbondedForce nb) (getForces sys))"
proof -
  have m: "map NonbondedForce (iterate_nonbonded_forces sys) =
      filter (\<lambda>f. \<exists>nb. f = NonbondedForce nb) (getForces sys)"
    by (simp add: iterate_nonbonded_forces_def generator_drain_eq nonbonded_forces_filter)
  have "length (map NonbondedForce (iterate_nonbonded_forces sys)) =
      length (filter (\<lambda>f. \<exists>nb. f = NonbondedForce nb) (getForces sys))"
    by (simp only: m)
  then show ?thesis
    using m by (simp add: iterate_nonbonded_forces_def generator_drain_eq)
qed

subsection \<open>Quantities and coefficients\<close>

lemma nanometers_per_pos: "0 < nanometers_per u"
  by (cases u) simp_all

lemma distance_in_nanometers_sub:
  "distance_in_nanometers (distance_sub a b) = distance_in_nanometers a - distance_in_nanometers b"
proof -
  have "nanometers_per (dunit a) \<noteq> 0"
    using nanometers_per_pos [of "dunit a"] by simp
  then show ?thesis
    by (simp add: distance_in_nanometers_def distance_sub_def field_simps)
qed

lemma distance_in_nanometers_zero_iff: "distance_in_nanometers c = 0 \<longleftrightarrow> dvalue c = 0"
  using nanometers_per_pos [of "dunit c"] by (simp add: distance_in_nanometers_def)

lemma Unshifted_k_rf_Inr:
  assumes "dvalue c \<noteq> 0" and "2 * d + 1 \<noteq> 0"
  shows "UnshiftedReactionFieldForce_k_rf c d =
           Inr \<lparr>qvalue = dvalue c powi (- 3) * (d - 1) / (2 * d + 1), qbase = dunit c, qexp = - 3\<rparr>"
  using assms
  by (simp add: UnshiftedReactionFieldForce_k_rf_def distance_pow_def quantity_mul_def
      quantity_truediv_def)

lemma Unshifted_k_rf_Inl:
  assumes "dvalue c = 0 \<or> 2 * d + 1 = 0"
  shows "UnshiftedReactionFieldForce_k_rf c d = Inl ZeroDivisionError"
  using assms
  by (auto simp add: UnshiftedReactionFieldForce_k_rf_def distance_pow_def quantity_mul_def
      quantity_truediv_def)

lemma Switched_k_rf_eq:
  "SwitchedReactionFieldForce_k_rf c d = UnshiftedReactionFieldForce_k_rf c d"
  by (simp add: SwitchedReactionFieldForce_k_rf_def UnshiftedReactionFieldForce_k_rf_def)

lemma Switched_c_rf_Inr:
  assumes "dvalue c \<noteq> 0" and "2 * d + 1 \<noteq> 0"
  shows "SwitchedReactionFieldForce_c_rf c d =
           Inr \<lparr>qvalue = dvalue c powi (- 1) * (3 * d) / (2 * d + 1), qbase = dunit c, qexp = - 1\<rparr>"
  using assms
  by (simp add: SwitchedReactionFieldForce_c_rf_def distance_pow_def quantity_mul_def
      quantity_truediv_def)

lemma Switched_c_rf_Inl:
  assumes "dvalue c = 0 \<or> 2 * d + 1 = 0"
  shows "SwitchedReactionFieldForce_c_rf c d = Inl ZeroDivisionError"
  using assms
  by (auto simp add: SwitchedReactionFieldForce_c_rf_def distance_pow_def quantity_mul_def
      quantity_truediv_def)

lemma k_rf_md_value:
  "value_in_md_unit_system
     \<lparr>qvalue = dvalue c powi (- 3) * (d - 1) / (2 * d + 1), qbase = dunit c, qexp = - 3\<rparr> =
   k_rf_formula (distance_in_nanometers c) d"
  by (simp add: value_in_md_unit_system_def k_rf_formula_def distance_in_nanometers_def
      power_int_mult_distrib)

lemma c_rf_md_value:
  "value_in_md_unit_system
     \<lparr>qvalue = dvalue c powi (- 1) * (3 * d) / (2 * d + 1), qbase = dunit c, qexp = - 1\<rparr> =
   c_rf_formula (distance_in_nanometers c) d"
  by (simp add: value_in_md_unit_system_def c_rf_formula_def distance_in_nanometers_def
      power_int_mult_distrib)

lemma Unshifted_k_rf_md:
  assumes "dvalue c \<noteq> 0" and "2 * d + 1 \<noteq> 0"
  shows "\<exists>q. UnshiftedReactionFieldForce_k_rf c d = Inr q \<and>
           value_in_md_unit_system q = k_rf_formula (distance_in_nanometers c) d"
  using Unshifted_k_rf_Inr [OF assms] k_rf_md_value [of c d] by simp

lemma Switched_k_rf_md:
  assumes "dvalue c \<noteq> 0" and "2 * d + 1 \<noteq> 0"
  shows "\<exists>q. SwitchedReactionFieldForce_k_rf c d = Inr q \<and>
           value_in_md_unit_system q = k_rf_formula (distance_in_nanometers c) d"
  using Unshifted_k_rf_md [OF assms] by (simp add: Switched_k_rf_eq)

lemma Switched_c_rf_md:
  assumes "dvalue c \<noteq> 0" and "2 * d + 1 \<noteq> 0"
  shows "\<exists>q. SwitchedReactionFieldForce_c_rf c d = Inr q \<and>
           value_in_md_unit_system q = c_rf_formula (distance_in_nanometers c) d"
  using Switched_c_rf_Inr [OF assms] c_rf_md_value [of c d] by simp

lemma Unshifted_init_Inr:
  assumes "dvalue c \<noteq> 0" and "2 * d + 1 \<noteq> 0"
  shows "UnshiftedReactionFieldForce_init ONE_4PI_EPS0 c sw d =
           Inr \<lparr>energyFunction =
                  ''ONE_4PI_EPS0*chargeprod*(r^(-1) + k_rf*r^2);chargeprod = charge1*charge2;k_rf = '' @
                  format_f (k_rf_formula (distance_in_nanometers c) d) @
                  '';ONE_4PI_EPS0 = '' @ format_f ONE_4PI_EPS0 @ '';'',
                perParticleParameters = [''charge''],
                nonbondedMethod = CutoffPeriodic,
                cutoffDistance = distance_in_nanometers c,
                switchingDistance =
                  (case sw of
                     Some w \<Rightarrow> distance_in_nanometers c - distance_in_nanometers w
                   | None \<Rightarrow> - 1),
                useSwitchingFunction = (sw \<noteq> None),
                useLongRangeCorrection = False,
                particles = [],
                exclusions = []\<rparr>"
proof -
  obtain k where k: "UnshiftedReactionFieldForce_k_rf c d = Inr k"
    "value_in_md_unit_system k = k_rf_formula (distance_in_nanometers c) d"
    using Unshifted_k_rf_md [OF assms] by blast
  show ?thesis
    unfolding UnshiftedReactionFieldForce_init_def
    by (simp add: k distance_in_nanometers_sub CustomNonbondedForce_init_def
        addPerParticleParameter_def setNonbondedMethod_def setCutoffDistance_def
        setUseLongRangeCorrection_def setUseSwitchingFunction_def setSwitchingDistance_def
        split: option.splits)
qed

lemma Unshifted_init_Inl:
  assumes "dvalue c = 0 \<or> 2 * d + 1 = 0"
  shows "UnshiftedReactionFieldForce_init ONE_4PI_EPS0 c sw d = Inl ZeroDivisionError"
  by (simp add: UnshiftedReactionFieldForce_init_def Unshifted_k_rf_Inl [OF assms])

lemma Switched_init_Inr:
  assumes "dvalue c \<noteq> 0" and "2 * d + 1 \<noteq> 0"
  shows "SwitchedReactionFieldForce_init ONE_4PI_EPS0 c sw d =
           Inr \<lparr>energyFunction =
                  ''ONE_4PI_EPS0*chargeprod*(r^(-1) + k_rf*r^2 - c_rf);chargeprod = charge1*charge2;k_rf = '' @
                  format_f (k_rf_formula (distance_in_nanometers c) d) @
                  '';c_rf = '' @ format_f (c_rf_formula (distance_in_nanometers c) d) @
                  '';ONE_4PI_EPS0 = '' @ format_f ONE_4PI_EPS0 @ '';'',
                perParticleParameters = [''charge''],
                nonbondedMethod = CutoffPeriodic,
                cutoffDistance = distance_in_nanometers c,
                switchingDistance =
                  (case sw of
                     Some w \<Rightarrow> distance_in_nanometers c - distance_in_nanometers w
                   | None \<Rightarrow> - 1),
                useSwitchingFunction = (sw \<noteq> None),
                useLongRangeCorrection = False,
                particles = [],
                exclusions = []\<rparr>"
proof -
  obtain k where k: "SwitchedReactionFieldForce_k_rf c d = Inr k"
    "value_in_md_unit_system k = k_rf_formula (distance_in_nanometers c) d"
    using Switched_k_rf_md [OF assms] by blast
  obtain q where q: "SwitchedReactionFieldForce_c_rf c d = Inr q"
    "value_in_md_unit_system q = c_rf_formula (distance_in_nanometers c) d"
    using Switched_c_rf_md [OF assms] by blast
  show ?thesis
    unfolding SwitchedReactionFieldForce_init_def
    by (simp add: k q distance_in_nanometers_sub CustomNonbondedForce_init_def
        addPerParticleParameter_def setNonbondedMethod_def setCutoffDistance_def
        setUseLongRangeCorrection_def setUseSwitchingFunction_def setSwitchingDistance_def
        split: option.splits)
qed

lemma Switched_init_Inl:
  assumes "dvalue c = 0 \<or> 2 * d + 1 = 0"
  shows "SwitchedReactionFieldForce_init ONE_4PI_EPS0 c sw d = Inl ZeroDivisionError"
  by (simp add: SwitchedReactionFieldForce_init_def Switched_k_rf_eq Unshifted_k_rf_Inl [OF assms])

lemma copy_particle_charges_eq:
  assumes "\<forall>i \<in> set js. i < length (nb_particles nb)"
  shows "copy_particle_charges nb js rf =
           Inr (rf\<lparr>particles := particles rf @ map (\<lambda>i. [fst (nb_particles nb ! i)]) js\<rparr>)"
  using assms
  by (induction js arbitrary: rf)
     (auto simp add: getParticleParameters_def addParticle_def split: prod.splits)

lemma copy_exclusions_eq:
  assumes "\<forall>i \<in> set js. i < length (nb_exceptions nb)"
  shows "copy_exclusions nb js rf =
           Inr (rf\<lparr>exclusions := exclusions rf @
                  map (\<lambda>i. (fst (nb_exceptions nb ! i), fst (snd (nb_exceptions nb ! i)))) js\<rparr>)"
  using assms
  by (induction js arbitrary: rf)
     (auto simp add: getExceptionParameters_def addExclusion_def split: prod.splits)

lemma copy_all_particle_charges:
  "copy_particle_charges nb [0..<getNumParticles nb] rf =
     Inr (rf\<lparr>particles := particles rf @ map (\<lambda>p. [fst p]) (nb_particles nb)\<rparr>)"
proof -
  have "map (\<lambda>i. [fst (nb_particles nb ! i)]) [0..<length (nb_particles nb)] =
      map (\<lambda>p. [fst p]) (map (\<lambda>i. nb_particles nb ! i) [0..<length (nb_particles nb)])"
    by (simp only: map_map comp_def)
  also have "\<dots> = map (\<lambda>p. [fst p]) (nb_particles nb)"
    by (simp only: map_nth)
  finally show ?thesis
    by (simp add: copy_particle_charges_eq getNumParticles_def)
qed

lemma copy_all_exclusions:
  "copy_exclusions nb [0..<getNumExceptions nb] rf =
     Inr (rf\<lparr>exclusions := exclusions rf @ map (\<lambda>x. (fst x, fst (snd x))) (nb_exceptions nb)\<rparr>)"
proof -
  have "map (\<lambda>i. (fst (nb_exceptions nb ! i), fst (snd (nb_exceptions nb ! i))))
          [0..<length (nb_exceptions nb)] =
      map (\<lambda>x. (fst x, fst (snd x))) (map (\<lambda>i. nb_exceptions nb ! i) [0..<length (nb_exceptions nb)])"
    by (simp only: map_map comp_def)
  also have "\<dots> = map (\<lambda>x. (fst x, fst (snd x))) (nb_exceptions nb)"
    by (simp only: map_nth)
  finally show ?thesis
    by (simp add: copy_exclusions_eq getNumExceptions_def)
qed

lemma dielectric_ratio_limit_c: "((\<lambda>d::real. 3 * d / (2 * d + 1)) \<longlongrightarrow> 3 / 2) at_top"
proof -
  have "((\<lambda>d::real. 3 / (2 + inverse d)) \<longlongrightarrow> 3 / (2 + 0)) at_top"
    by (intro tendsto_intros tendsto_inverse_0_at_top filterlim_ident) simp_all
  moreover have "eventually (\<lambda>d::real. 3 / (2 + inverse d) = 3 * d / (2 * d + 1)) at_top"
    using eventually_gt_at_top [of "0::real"]
    by eventually_elim (simp add: field_simps)
  ultimately show ?thesis
    using Lim_transform_eventually by fastforce
qed

lemma dielectric_ratio_limit_k: "((\<lambda>d::real. (d - 1) / (2 * d + 1)) \<longlongrightarrow> 1 / 2) at_top"
proof -
  have "((\<lambda>d::real. (1 - inverse d) / (2 + inverse d)) \<longlongrightarrow> (1 - 0) / (2 + 0)) at_top"
    by (intro tendsto_intros tendsto_inverse_0_at_top filterlim_ident) simp_all
  moreover have "eventually (\<lambda>d::real. (1 - inverse d) / (2 + inverse d) = (d - 1) / (2 * d + 1)) at_top"
    using eventually_gt_at_top [of "0::real"]
  proof eventually_elim
    case (elim d)
    have a: "1 - inverse d = (d - 1) / d"
      using elim by (simp add: field_simps)
    have b: "2 + inverse d = (2 * d + 1) / d"
      using elim by (simp add: field_simps)
    show ?case
      unfolding a b using elim by simp
  qed
  ultimately show ?thesis
    using Lim_transform_eventually by fastforce
qed

lemma c_rf_formula_limit: "((\<lambda>d. c_rf_formula r d) \<longlongrightarrow> r powi (- 1) * (3 / 2)) at_top"
proof -
  have "((\<lambda>d. r powi (- 1) * (3 * d / (2 * d + 1))) \<longlongrightarrow> r powi (- 1) * (3 / 2)) at_top"
    by (intro tendsto_mult tendsto_const dielectric_ratio_limit_c)
  then show ?thesis
    by (simp add: c_rf_formula_def)
qed

lemma k_rf_formula_limit: "((\<lambda>d. k_rf_formula r d) \<longlongrightarrow> r powi (- 3) * (1 / 2)) at_top"
proof -
  have "((\<lambda>d. r powi (- 3) * ((d - 1) / (2 * d + 1))) \<longlongrightarrow> r powi (- 3) * (1 / 2)) at_top"
    by (intro tendsto_mult tendsto_const dielectric_ratio_limit_k)
  then show ?thesis
    by (simp add: k_rf_formula_def)
qed

lemma c_rf_formula_pos: "0 < r \<Longrightarrow> 0 < d \<Longrightarrow> 0 < c_rf_formula r d"
  by (simp add: c_rf_formula_def)

lemma k_rf_formula_sign:
  assumes "0 < r" and "0 < d"
  shows "(1 < d \<longrightarrow> 0 < k_rf_formula r d) \<and> (d = 1 \<longrightarrow> k_rf_formula r d = 0) \<and>
         (d < 1 \<longrightarrow> k_rf_formula r d < 0)"
  using assms by (auto simp add: k_rf_formula_def zero_less_divide_iff divide_less_0_iff zero_less_mult_iff mult_less_0_iff)

lemma k_rf_formula_scale: "k_rf_formula (a * r) d = a powi (- 3) * k_rf_formula r d"
  by (simp add: k_rf_formula_def power_int_mult_distrib)

lemma c_rf_formula_scale: "c_rf_formula (a * r) d = a powi (- 1) * c_rf_formula r d"
  by (simp add: c_rf_formula_def power_int_mult_distrib)

lemma distance_in_nanometers_scale:
  "distance_in_nanometers (c\<lparr>dvalue := a * dvalue c\<rparr>) = a * distance_in_nanometers c"
  by (simp add: distance_in_nanometers_def)

lemma distance_in_nanometers_pos: "0 < dvalue c \<Longrightarrow> 0 < distance_in_nanometers c"
  using nanometers_per_pos [of "dunit c"] by (simp add: distance_in_nanometers_def)

subsection \<open>The copy constructors\<close>

lemma nonbonded_force_cutoff:
  "dvalue (getCutoffDistance nb) = nb_cutoffDistance nb \<and>
   distance_in_nanometers (getCutoffDistance nb) = nb_cutoffDistance nb"
  by (simp add: getCutoffDistance_def distance_in_nanometers_def)

lemma Unshifted_from_nonbonded_force_Inr:
  assumes "UnshiftedReactionFieldForce_init ONE_4PI_EPS0 (getCutoffDistance nb) sw
             (getReactionFieldDielectric nb) = Inr rf"
  shows "UnshiftedReactionFieldForce_from_nonbonded_force ONE_4PI_EPS0 (Some nb) sw =
           Inr (rf\<lparr>particles := particles rf @ map (\<lambda>p. [fst p]) (nb_particles nb),
                   exclusions := exclusions rf @ map (\<lambda>x. (fst x, fst (snd x))) (nb_exceptions nb)\<rparr>)"
  by (simp add: UnshiftedReactionFieldForce_from_nonbonded_force_def assms
      copy_all_particle_charges copy_all_exclusions)

lemma Switched_from_nonbonded_force_Inr:
  assumes "SwitchedReactionFieldForce_init ONE_4PI_EPS0 (getCutoffDistance nb) sw
             (getReactionFieldDielectric nb) = Inr rf"
  shows "SwitchedReactionFieldForce_from_nonbonded_force ONE_4PI_EPS0 (Some nb) sw =
           Inr (rf\<lparr>particles := particles rf @ map (\<lambda>p. [fst p]) (nb_particles nb),
                   exclusions := exclusions rf @ map (\<lambda>x. (fst x, fst (snd x))) (nb_exceptions nb)\<rparr>)"
  by (simp add: SwitchedReactionFieldForce_from_nonbonded_force_def assms
      copy_all_particle_charges copy_all_exclusions)

text \<open>
  C3. For a source force with N particles and M exceptions, \<open>from_nonbonded_force\<close> of
  either class returns a force with exactly N particles, the i-th with the one parameter
  \<open>charge\<close> of the source's i-th particle (sigma and epsilon are dropped), and exactly M
  exclusions, the i-th the pair \<open>(iatom, jatom)\<close> of the source's i-th exception
  (chargeprod, sigma and epsilon are dropped). The constructor it calls raises
  \<open>ZeroDivisionError\<close> for a cutoff of zero or a dielectric of -1/2 (lemma
  \<open>Unshifted_init_Inl\<close>); for every other source force the copy is returned.
\<close>

theorem from_nonbonded_force_copies:
  assumes "nb_cutoffDistance nb \<noteq> 0" and "2 * nb_reactionFieldDielectric nb + 1 \<noteq> 0"
  shows "(\<exists>rf. UnshiftedReactionFieldForce_from_nonbonded_force ONE_4PI_EPS0 (Some nb) sw = Inr rf \<and>
            length (particles rf) = length (nb_particles nb) \<and>
            particles rf = map (\<lambda>(charge, sigma, epsilon). [charge]) (nb_particles nb) \<and>
            length (exclusions rf) = length (nb_exceptions nb) \<and>
            exclusions rf =
              map (\<lambda>(iatom, jatom, chargeprod, sigma, epsilon). (iatom, jatom)) (nb_exceptions nb)) \<and>
         (\<exists>rf. SwitchedReactionFieldForce_from_nonbonded_force ONE_4PI_EPS0 (Some nb) sw = Inr rf \<and>
            length (particles rf) = length (nb_particles nb) \<and>
            particles rf = map (\<lambda>(charge, sigma, epsilon). [charge]) (nb_particles nb) \<and>
            length (exclusions rf) = length (nb_exceptions nb) \<and>
            exclusions rf =
              map (\<lambda>(iatom, jatom, chargeprod, sigma, epsilon). (iatom, jatom)) (nb_exceptions nb))"
proof -
  have c: "dvalue (getCutoffDistance nb) \<noteq> 0"
    using assms(1) by (simp add: nonbonded_force_cutoff)
  have d: "2 * getReactionFieldDielectric nb + 1 \<noteq> 0"
    using assms(2) by (simp add: getReactionFieldDielectric_def)
  have p: "(\<lambda>p. [fst p]) = (\<lambda>(charge :: real, sigma :: real, epsilon :: real). [charge])"
    by (simp add: fun_eq_iff)
  have x: "(\<lambda>x. (fst x, fst (snd x))) =
      (\<lambda>(iatom :: int, jatom :: int, chargeprod :: real, sigma :: real, epsilon :: real). (iatom, jatom))"
    by (simp add: fun_eq_iff)
  show ?thesis
    using Unshifted_from_nonbonded_force_Inr [OF Unshifted_init_Inr [OF c d], of ONE_4PI_EPS0 sw]
      Switched_from_nonbonded_force_Inr [OF Switched_init_Inr [OF c d], of ONE_4PI_EPS0 sw]
    by (simp add: p x)
qed

theorem from_nonbonded_force_copies_witness:
  "\<exists>rf. UnshiftedReactionFieldForce_from_nonbonded_force (138935456 / 10 ^ 6)
           (Some \<lparr>nb_cutoffDistance = 12 / 10, nb_reactionFieldDielectric = 80,
                  nb_particles = [(1, 3 / 10, 1 / 2), (- 1, 3 / 10, 1 / 2), (1 / 2, 1 / 4, 1)],
                  nb_exceptions = [(0, 1, 0, 1, 0)]\<rparr>)
           (Some \<lparr>dvalue = 1, dunit = angstrom\<rparr>) = Inr rf \<and>
         particles rf = [[1], [- 1], [1 / 2]] \<and> exclusions rf = [(0, 1)]"
  using from_nonbonded_force_copies
    [of "\<lparr>nb_cutoffDistance = 12 / 10, nb_reactionFieldDielectric = 80,
          nb_particles = [(1, 3 / 10, 1 / 2), (- 1, 3 / 10, 1 / 2), (1 / 2, 1 / 4, 1)],
          nb_exceptions = [(0, 1, 0, 1, 0)]\<rparr>" "138935456 / 10 ^ 6"
        "Some \<lparr>dvalue = 1, dunit = angstrom\<rparr>"]
  by auto

lemma propagate_find_result:
  "(case (case nbs of [] \<Rightarrow> Inr None | [nb] \<Rightarrow> Inr (Some nb) | nb # nb' # rest \<Rightarrow> Inl err) of
      Inl e \<Rightarrow> Inl e
    | Inr found \<Rightarrow> F found) =
   (case nbs of [] \<Rightarrow> F None | [nb] \<Rightarrow> F (Some nb) | nb # nb' # rest \<Rightarrow> Inl err)"
  by (simp split: list.splits)

lemma Unshifted_from_nonbonded_force_None:
  "UnshiftedReactionFieldForce_from_nonbonded_force ONE_4PI_EPS0 None sw = Inl AttributeError"
  by (simp add: UnshiftedReactionFieldForce_from_nonbonded_force_def)

lemma Switched_from_nonbonded_force_None:
  "SwitchedReactionFieldForce_from_nonbonded_force ONE_4PI_EPS0 None sw = Inl AttributeError"
  by (simp add: SwitchedReactionFieldForce_from_nonbonded_force_def)

text \<open>
  C4. \<open>from_system\<close> of either class calls \<open>find_nonbonded_force\<close> and passes what it
  found, with the given switch width, to \<open>from_nonbonded_force\<close>: with exactly one
  nonbonded force the result is that of \<open>from_nonbonded_force\<close> on it; with two or more
  it is the locator's error; with none the locator returns \<open>None\<close>, which is passed on
  unchecked, and the call fails with \<open>AttributeError\<close> at
  \<open>nonbonded_force.getCutoffDistance()\<close>.
\<close>

theorem from_system_result:
  "UnshiftedReactionFieldForce_from_system ONE_4PI_EPS0 sys sw =
     (case [nb. NonbondedForce nb \<leftarrow> getForces sys] of
        [] \<Rightarrow> Inl AttributeError
      | [nb] \<Rightarrow> UnshiftedReactionFieldForce_from_nonbonded_force ONE_4PI_EPS0 (Some nb) sw
      | nb # nb' # rest \<Rightarrow> Inl (ValueError ''The System has multiple NonbondedForces'')) \<and>
   SwitchedReactionFieldForce_from_system ONE_4PI_EPS0 sys sw =
     (case [nb. NonbondedForce nb \<leftarrow> getForces sys] of
        [] \<Rightarrow> Inl AttributeError
      | [nb] \<Rightarrow> SwitchedReactionFieldForce_from_nonbonded_force ONE_4PI_EPS0 (Some nb) sw
      | nb # nb' # rest \<Rightarrow> Inl (ValueError ''The System has multiple NonbondedForces''))"
  unfolding UnshiftedReactionFieldForce_from_system_def SwitchedReactionFieldForce_from_system_def
    find_nonbonded_force_eq propagate_find_result
    Unshifted_from_nonbonded_force_None Switched_from_nonbonded_force_None
  by (rule conjI) (rule refl)+

text \<open>
  C5. Both constructors set the nonbonded method to \<open>CutoffPeriodic\<close>, the cutoff
  distance to the given one and the long-range correction off. With a switch width they
  turn the switching function on and set the switching distance to cutoff minus switch
  width; with \<open>None\<close> they turn the switching function off and leave the switching
  distance as the base class constructor made it. This holds whenever the constructor
  returns, which it does unless the cutoff is zero or the dielectric is -1/2.
\<close>

theorem constructors_configure:
  assumes "dvalue c \<noteq> 0" and "2 * d + 1 \<noteq> 0"
  shows "(\<exists>rf. UnshiftedReactionFieldForce_init ONE_4PI_EPS0 c sw d = Inr rf \<and>
            nonbondedMethod rf = CutoffPeriodic \<and>
            cutoffDistance rf = distance_in_nanometers c \<and>
            \<not> useLongRangeCorrection rf \<and>
            (case sw of
               Some w \<Rightarrow>
                 useSwitchingFunction rf \<and>
                 switchingDistance rf = distance_in_nanometers c - distance_in_nanometers w
             | None \<Rightarrow>
                 \<not> useSwitchingFunction rf \<and>
                 switchingDistance rf = switchingDistance (CustomNonbondedForce_init (energyFunction rf)))) \<and>
         (\<exists>rf. SwitchedReactionFieldForce_init ONE_4PI_EPS0 c sw d = Inr rf \<and>
            nonbondedMethod rf = CutoffPeriodic \<and>
            cutoffDistance rf = distance_in_nanometers c \<and>
            \<not> useLongRangeCorrection rf \<and>
            (case sw of
               Some w \<Rightarrow>
                 useSwitchingFunction rf \<and>
                 switchingDistance rf = distance_in_nanometers c - distance_in_nanometers w
             | None \<Rightarrow>
                 \<not> useSwitchingFunction rf \<and>
                 switchingDistance rf = switchingDistance (CustomNonbondedForce_init (energyFunction rf))))"
  by (simp add: Unshifted_init_Inr [OF assms] Switched_init_Inr [OF assms]
      CustomNonbondedForce_init_def split: option.splits)

theorem constructors_configure_witness:
  "(\<exists>rf. UnshiftedReactionFieldForce_init (138935456 / 10 ^ 6) \<lparr>dvalue = 12, dunit = angstrom\<rparr>
            (Some \<lparr>dvalue = 1, dunit = angstrom\<rparr>) 80 = Inr rf \<and>
          nonbondedMethod rf = CutoffPeriodic \<and> cutoffDistance rf = 12 / 10 \<and>
          \<not> useLongRangeCorrection rf \<and> useSwitchingFunction rf \<and>
          switchingDistance rf = 11 / 10) \<and>
   (\<exists>rf. SwitchedReactionFieldForce_init (138935456 / 10 ^ 6) \<lparr>dvalue = 12, dunit = angstrom\<rparr>
            None 80 = Inr rf \<and>
          nonbondedMethod rf = CutoffPeriodic \<and> cutoffDistance rf = 12 / 10 \<and>
          \<not> useLongRangeCorrection rf \<and> \<not> useSwitchingFunction rf)"
  using constructors_configure
      [of "\<lparr>dvalue = 12, dunit = angstrom\<rparr>" 80 "138935456 / 10 ^ 6"
        "Some \<lparr>dvalue = 1, dunit = angstrom\<rparr>"]
    constructors_configure
      [of "\<lparr>dvalue = 12, dunit = angstrom\<rparr>" 80 "138935456 / 10 ^ 6" None]
  by (auto simp add: distance_in_nanometers_def)

subsection \<open>The energy expression\<close>

lemma k_rf_formula_example: "k_rf_formula (12 * (1 / 10)) 80 = 79000 / 278208"
  by (simp add: k_rf_formula_def power_int_minus power_divide)

lemma c_rf_formula_example: "c_rf_formula (12 * (1 / 10)) 80 = 2400 / 1932"
  by (simp add: c_rf_formula_def power_int_minus power_divide)

lemma format_f_examples:
  "format_f (79000 / 278208) = ''0.283960''"
  "format_f (2400 / 1932) = ''1.242236''"
  "format_f (138935456 / 10 ^ 6) = ''138.935456''"
  by (simp_all add: format_f_def round_half_even_def Let_def digit_char_def decimal_digits.simps)

text \<open>
  C2. Both constructors compute \<open>k_rf = cutoff^-3 \<cdot> (dielectric - 1) / (2\<cdot>dielectric + 1)\<close>,
  and the switched one also \<open>c_rf = cutoff^-1 \<cdot> 3\<cdot>dielectric / (2\<cdot>dielectric + 1)\<close>:
  the value of each in the MD unit system is the formula at the cutoff's number of
  nanometers, whatever unit the cutoff was given in, and it is that value, printed by
  \<open>{:f}\<close>, that stands after \<open>k_rf = \<close> (and \<open>c_rf = \<close>) in the energy expression of the
  force. For a cutoff of 12 angstroms and a dielectric of 80 the literals are
  \<open>0.283960\<close> and \<open>1.242236\<close>.
\<close>

theorem coefficients_embedded:
  assumes "dvalue c \<noteq> 0" and "2 * d + 1 \<noteq> 0"
  shows "(\<exists>k rf. UnshiftedReactionFieldForce_k_rf c d = Inr k \<and>
            value_in_md_unit_system k = k_rf_formula (distance_in_nanometers c) d \<and>
            UnshiftedReactionFieldForce_init ONE_4PI_EPS0 c sw d = Inr rf \<and>
            energyFunction rf =
              ''ONE_4PI_EPS0*chargeprod*(r^(-1) + k_rf*r^2);chargeprod = charge1*charge2;'' @
              ''k_rf = '' @ format_f (value_in_md_unit_system k) @ '';'' @
              ''ONE_4PI_EPS0 = '' @ format_f ONE_4PI_EPS0 @ '';'') \<and>
         (\<exists>k q rf. SwitchedReactionFieldForce_k_rf c d = Inr k \<and>
            value_in_md_unit_system k = k_rf_formula (distance_in_nanometers c) d \<and>
            SwitchedReactionFieldForce_c_rf c d = Inr q \<and>
            value_in_md_unit_system q = c_rf_formula (distance_in_nanometers c) d \<and>
            SwitchedReactionFieldForce_init ONE_4PI_EPS0 c sw d = Inr rf \<and>
            energyFunction rf =
              ''ONE_4PI_EPS0*chargeprod*(r^(-1) + k_rf*r^2 - c_rf);chargeprod = charge1*charge2;'' @
              ''k_rf = '' @ format_f (value_in_md_unit_system k) @ '';'' @
              ''c_rf = '' @ format_f (value_in_md_unit_system q) @ '';'' @
              ''ONE_4PI_EPS0 = '' @ format_f ONE_4PI_EPS0 @ '';'')"
proof (rule conjI)
  obtain k where k: "UnshiftedReactionFieldForce_k_rf c d = Inr k"
    "value_in_md_unit_system k = k_rf_formula (distance_in_nanometers c) d"
    using Unshifted_k_rf_md [OF assms] by blast
  then show "\<exists>k rf. UnshiftedReactionFieldForce_k_rf c d = Inr k \<and>
            value_in_md_unit_system k = k_rf_formula (distance_in_nanometers c) d \<and>
            UnshiftedReactionFieldForce_init ONE_4PI_EPS0 c sw d = Inr rf \<and>
            energyFunction rf =
              ''ONE_4PI_EPS0*chargeprod*(r^(-1) + k_rf*r^2);chargeprod = charge1*charge2;'' @
              ''k_rf = '' @ format_f (value_in_md_unit_system k) @ '';'' @
              ''ONE_4PI_EPS0 = '' @ format_f ONE_4PI_EPS0 @ '';''"
    by (simp add: Unshifted_init_Inr [OF assms])
next
  obtain k where k: "SwitchedReactionFieldForce_k_rf c d = Inr k"
    "value_in_md_unit_system k = k_rf_formula (distance_in_nanometers c) d"
    using Switched_k_rf_md [OF assms] by blast
  obtain q where q: "SwitchedReactionFieldForce_c_rf c d = Inr q"
    "value_in_md_unit_system q = c_rf_formula (distance_in_nanometers c) d"
    using Switched_c_rf_md [OF assms] by blast
  from k q show "\<exists>k q rf. SwitchedReactionFieldForce_k_rf c d = Inr k \<and>
            value_in_md_unit_system k = k_rf_formula (distance_in_nanometers c) d \<and>
            SwitchedReactionFieldForce_c_rf c d = Inr q \<and>
            value_in_md_unit_system q = c_rf_formula (distance_in_nanometers c) d \<and>
            SwitchedReactionFieldForce_init ONE_4PI_EPS0 c sw d = Inr rf \<and>
            energyFunction rf =
              ''ONE_4PI_EPS0*chargeprod*(r^(-1) + k_rf*r^2 - c_rf);chargeprod = charge1*charge2;'' @
              ''k_rf = '' @ format_f (value_in_md_unit_system k) @ '';'' @
              ''c_rf = '' @ format_f (value_in_md_unit_system q) @ '';'' @
              ''ONE_4PI_EPS0 = '' @ format_f ONE_4PI_EPS0 @ '';''"
    by (simp add: Switched_init_Inr [OF assms])
qed

theorem coefficients_embedded_witness:
  "(\<exists>rf. UnshiftedReactionFieldForce_init (138935456 / 10 ^ 6) \<lparr>dvalue = 12, dunit = angstrom\<rparr>
            (Some \<lparr>dvalue = 1, dunit = angstrom\<rparr>) 80 = Inr rf \<and>
          energyFunction rf =
            ''ONE_4PI_EPS0*chargeprod*(r^(-1) + k_rf*r^2);chargeprod = charge1*charge2;k_rf = 0.283960;ONE_4PI_EPS0 = 138.935456;'') \<and>
   (\<exists>rf. SwitchedReactionFieldForce_init (138935456 / 10 ^ 6) \<lparr>dvalue = 12, dunit = angstrom\<rparr>
            (Some \<lparr>dvalue = 1, dunit = angstrom\<rparr>) 80 = Inr rf \<and>
          energyFunction rf =
            ''ONE_4PI_EPS0*chargeprod*(r^(-1) + k_rf*r^2 - c_rf);chargeprod = charge1*charge2;k_rf = 0.283960;c_rf = 1.242236;ONE_4PI_EPS0 = 138.935456;'')"
proof -
  let ?c = "\<lparr>dvalue = 12, dunit = angstrom\<rparr>"
  let ?w = "Some \<lparr>dvalue = 1, dunit = angstrom\<rparr>"
  have c: "dvalue ?c \<noteq> 0"
    by simp
  have d: "2 * (80::real) + 1 \<noteq> 0"
    by simp
  have n: "distance_in_nanometers ?c = 12 * (1 / 10)"
    by (simp add: distance_in_nanometers_def)
  note t = coefficients_embedded [OF c d, of "138935456 / 10 ^ 6" ?w]
  obtain k rf where u: "value_in_md_unit_system k = k_rf_formula (distance_in_nanometers ?c) 80"
    "UnshiftedReactionFieldForce_init (138935456 / 10 ^ 6) ?c ?w 80 = Inr rf"
    "energyFunction rf =
       ''ONE_4PI_EPS0*chargeprod*(r^(-1) + k_rf*r^2);chargeprod = charge1*charge2;'' @
       ''k_rf = '' @ format_f (value_in_md_unit_system k) @ '';'' @
       ''ONE_4PI_EPS0 = '' @ format_f (138935456 / 10 ^ 6) @ '';''"
    using t by blast
  obtain k' q' rf' where s: "value_in_md_unit_system k' = k_rf_formula (distance_in_nanometers ?c) 80"
    "value_in_md_unit_system q' = c_rf_formula (distance_in_nanometers ?c) 80"
    "SwitchedReactionFieldForce_init (138935456 / 10 ^ 6) ?c ?w 80 = Inr rf'"
    "energyFunction rf' =
       ''ONE_4PI_EPS0*chargeprod*(r^(-1) + k_rf*r^2 - c_rf);chargeprod = charge1*charge2;'' @
       ''k_rf = '' @ format_f (value_in_md_unit_system k') @ '';'' @
       ''c_rf = '' @ format_f (value_in_md_unit_system q') @ '';'' @
       ''ONE_4PI_EPS0 = '' @ format_f (138935456 / 10 ^ 6) @ '';''"
    using t by blast
  have "energyFunction rf =
      ''ONE_4PI_EPS0*chargeprod*(r^(-1) + k_rf*r^2);chargeprod = charge1*charge2;k_rf = 0.283960;ONE_4PI_EPS0 = 138.935456;''"
    unfolding u(3) u(1) n k_rf_formula_example format_f_examples by simp
  moreover have "energyFunction rf' =
      ''ONE_4PI_EPS0*chargeprod*(r^(-1) + k_rf*r^2 - c_rf);chargeprod = charge1*charge2;k_rf = 0.283960;c_rf = 1.242236;ONE_4PI_EPS0 = 138.935456;''"
    unfolding s(4) s(1) s(2) n k_rf_formula_example c_rf_formula_example format_f_examples by simp
  ultimately show ?thesis
    using u(2) s(3) by simp
qed

subsection \<open>Round trip and switch width\<close>

text \<open>
  The binary64 numbers of nanometers that a source force holds for cutoffs of 16 and of
  12 angstroms, and the literals \<open>{:f}\<close> prints for the coefficients at the cutoffs used
  below.
\<close>

lemma bit_length_numeral:
  "bit_length 0 = 0"
  "bit_length (Suc 0) = 1"
  "bit_length (numeral (Num.Bit0 n)) = Suc (bit_length (numeral n))"
  "bit_length (numeral (Num.Bit1 n)) = Suc (bit_length (numeral n))"
  "bit_length (numeral Num.One) = 1"
  by (subst bit_length.simps, simp add: bit_length.simps [of 0] numeral_Bit0_div_2 numeral_Bit1_div_2)+

lemma stored_sixteen_angstrom:
  "stored_nanometers \<lparr>significand = 16, exponent = 0\<rparr> angstrom = 3602879701896397 / 2 ^ 51"
  by (simp add: binary64_mul_def binary64_tenth_def binary64_round_def binary64_value_def
      shift_round_half_even_def bit_length_numeral Let_def power_int_minus)

lemma stored_twelve_angstrom:
  "stored_nanometers \<lparr>significand = 12, exponent = 0\<rparr> angstrom = 1351079888211149 / 2 ^ 50"
  by (simp add: binary64_mul_def binary64_tenth_def binary64_round_def binary64_value_def
      shift_round_half_even_def bit_length_numeral Let_def power_int_minus)

lemma literals_twelve:
  "format_f (k_rf_formula (1351079888211149 / 2 ^ 50) 80) = ''0.283960''"
  "format_f (c_rf_formula (1351079888211149 / 2 ^ 50) 80) = ''1.242236''"
  "format_f (k_rf_formula (12 * (1 / 10)) 80) = ''0.283960''"
  "format_f (c_rf_formula (12 * (1 / 10)) 80) = ''1.242236''"
  by (simp_all add: k_rf_formula_def c_rf_formula_def power_int_minus power_divide format_f_def
      round_half_even_def Let_def digit_char_def decimal_digits.simps)


lemma literal_direct: "format_f (k_rf_formula (16 * (1 / 10)) 37) = ''0.117188''"
  by (simp add: k_rf_formula_def power_int_minus power_divide format_f_def round_half_even_def
      Let_def digit_char_def decimal_digits.simps)

lemma literal_copied: "format_f (k_rf_formula (3602879701896397 / 2 ^ 51) 37) = ''0.117187''"
  by (simp add: k_rf_formula_def power_int_minus power_divide format_f_def round_half_even_def
      Let_def digit_char_def decimal_digits.simps)

lemma coulomb_literal: "format_f (138935456 / 10 ^ 6) = ''138.935456''"
  by (simp add: format_f_def round_half_even_def Let_def digit_char_def decimal_digits.simps)


text \<open>
  C6 as stated fails when the direct cutoff is given in another unit than the source
  force reports. A source force whose cutoff was set to 16 angstroms holds the binary64
  product of 16 and \<open>0.1\<close>, which is \<open>3602879701896397 / 2^51\<close> nanometers: the binary64
  number nearest to 1.6, but not 1.6. With a dielectric of 37 the force constructed
  directly from 16 angstroms has \<open>k_rf = 15/128 = 0.1171875\<close>, printed \<open>0.117188\<close>; the
  force copied from the source force has a \<open>k_rf\<close> just below 15/128, printed
  \<open>0.117187\<close>.
\<close>

theorem round_trip_across_units_counterexample:
  "stored_nanometers \<lparr>significand = 16, exponent = 0\<rparr> angstrom = 3602879701896397 / 2 ^ 51 \<and>
   \<bar>3602879701896397 / 2 ^ 51 - distance_in_nanometers \<lparr>dvalue = 16, dunit = angstrom\<rparr>\<bar> < 1 / 2 ^ 53 \<and>
   map_sum id energyFunction
     (UnshiftedReactionFieldForce_init (138935456 / 10 ^ 6) \<lparr>dvalue = 16, dunit = angstrom\<rparr>
        (Some \<lparr>dvalue = 1, dunit = angstrom\<rparr>) 37) =
     Inr ''ONE_4PI_EPS0*chargeprod*(r^(-1) + k_rf*r^2);chargeprod = charge1*charge2;k_rf = 0.117188;ONE_4PI_EPS0 = 138.935456;'' \<and>
   map_sum id energyFunction
     (UnshiftedReactionFieldForce_from_nonbonded_force (138935456 / 10 ^ 6)
        (Some \<lparr>nb_cutoffDistance = stored_nanometers \<lparr>significand = 16, exponent = 0\<rparr> angstrom,
               nb_reactionFieldDielectric = 37, nb_particles = [], nb_exceptions = []\<rparr>)
        (Some \<lparr>dvalue = 1, dunit = angstrom\<rparr>)) =
     Inr ''ONE_4PI_EPS0*chargeprod*(r^(-1) + k_rf*r^2);chargeprod = charge1*charge2;k_rf = 0.117187;ONE_4PI_EPS0 = 138.935456;''"
proof -
  let ?c = "\<lparr>dvalue = 16, dunit = angstrom\<rparr>"
  let ?w = "Some \<lparr>dvalue = 1, dunit = angstrom\<rparr>"
  let ?nb = "\<lparr>nb_cutoffDistance = stored_nanometers \<lparr>significand = 16, exponent = 0\<rparr> angstrom,
      nb_reactionFieldDielectric = 37, nb_particles = [], nb_exceptions = []\<rparr>"
  have s: "stored_nanometers \<lparr>significand = 16, exponent = 0\<rparr> angstrom = 3602879701896397 / 2 ^ 51"
    by (rule stored_sixteen_angstrom)
  have n: "distance_in_nanometers ?c = 16 * (1 / 10)"
    by (simp add: distance_in_nanometers_def)
  have near: "\<bar>3602879701896397 / 2 ^ 51 - distance_in_nanometers ?c\<bar> < 1 / 2 ^ 53"
    unfolding n by simp
  have c: "dvalue ?c \<noteq> 0"
    by simp
  have d: "2 * (37::real) + 1 \<noteq> 0"
    by simp
  have direct: "map_sum id energyFunction (UnshiftedReactionFieldForce_init (138935456 / 10 ^ 6) ?c ?w 37) =
      Inr ''ONE_4PI_EPS0*chargeprod*(r^(-1) + k_rf*r^2);chargeprod = charge1*charge2;k_rf = 0.117188;ONE_4PI_EPS0 = 138.935456;''"
    unfolding Unshifted_init_Inr [OF c d] n literal_direct coulomb_literal
    by simp
  have c': "dvalue (getCutoffDistance ?nb) \<noteq> 0"
    by (simp add: getCutoffDistance_def s del: stored_nanometers.simps)
  have d': "2 * getReactionFieldDielectric ?nb + 1 \<noteq> 0"
    by (simp add: getReactionFieldDielectric_def)
  have n': "distance_in_nanometers (getCutoffDistance ?nb) = 3602879701896397 / 2 ^ 51"
    by (simp add: nonbonded_force_cutoff s del: stored_nanometers.simps)
  have e': "getReactionFieldDielectric ?nb = 37"
    by (simp add: getReactionFieldDielectric_def)
  have copied: "map_sum id energyFunction
      (UnshiftedReactionFieldForce_from_nonbonded_force (138935456 / 10 ^ 6) (Some ?nb) ?w) =
      Inr ''ONE_4PI_EPS0*chargeprod*(r^(-1) + k_rf*r^2);chargeprod = charge1*charge2;k_rf = 0.117187;ONE_4PI_EPS0 = 138.935456;''"
    unfolding Unshifted_from_nonbonded_force_Inr [OF Unshifted_init_Inr [OF c' d']] n' e'
      literal_copied coulomb_literal
    by simp
  from s near direct copied show ?thesis
    by (intro conjI)
qed

text \<open>
  C6, amended. Round trip: a force constructed directly from the cutoff quantity and the
  dielectric that a source force reports (\<open>getCutoffDistance()\<close>, the same number in the
  same unit, and \<open>getReactionFieldDielectric()\<close>), and the force that
  \<open>from_nonbonded_force\<close> makes from that source force, embed the same \<open>k_rf\<close> (and, for
  the switched class, \<open>c_rf\<close>) literal: the value of the constructor's local variable in
  the MD unit system, printed by \<open>{:f}\<close> after \<open>k_rf = \<close> (and \<open>c_rf = \<close>). The switch
  widths of the two constructions play no part. For the source force that holds a
  cutoff of 12 angstroms, with a dielectric of 80, the literals are \<open>0.283960\<close> and
  \<open>1.242236\<close>.
\<close>

theorem round_trip_same_quantity:
  assumes "nb_cutoffDistance nb \<noteq> 0" and "2 * nb_reactionFieldDielectric nb + 1 \<noteq> 0"
  shows "(\<exists>k direct copied.
            UnshiftedReactionFieldForce_k_rf (getCutoffDistance nb) (getReactionFieldDielectric nb) = Inr k \<and>
            UnshiftedReactionFieldForce_init ONE_4PI_EPS0 (getCutoffDistance nb) sw
              (getReactionFieldDielectric nb) = Inr direct \<and>
            UnshiftedReactionFieldForce_from_nonbonded_force ONE_4PI_EPS0 (Some nb) sw' = Inr copied \<and>
            energyFunction direct =
              ''ONE_4PI_EPS0*chargeprod*(r^(-1) + k_rf*r^2);chargeprod = charge1*charge2;'' @
              ''k_rf = '' @ format_f (value_in_md_unit_system k) @ '';'' @
              ''ONE_4PI_EPS0 = '' @ format_f ONE_4PI_EPS0 @ '';'' \<and>
            energyFunction copied = energyFunction direct) \<and>
         (\<exists>k q direct copied.
            SwitchedReactionFieldForce_k_rf (getCutoffDistance nb) (getReactionFieldDielectric nb) = Inr k \<and>
            SwitchedReactionFieldForce_c_rf (getCutoffDistance nb) (getReactionFieldDielectric nb) = Inr q \<and>
            SwitchedReactionFieldForce_init ONE_4PI_EPS0 (getCutoffDistance nb) sw
              (getReactionFieldDielectric nb) = Inr direct \<and>
            SwitchedReactionFieldForce_from_nonbonded_force ONE_4PI_EPS0 (Some nb) sw' = Inr copied \<and>
            energyFunction direct =
              ''ONE_4PI_EPS0*chargeprod*(r^(-1) + k_rf*r^2 - c_rf);chargeprod = charge1*charge2;'' @
              ''k_rf = '' @ format_f (value_in_md_unit_system k) @ '';'' @
              ''c_rf = '' @ format_f (value_in_md_unit_system q) @ '';'' @
              ''ONE_4PI_EPS0 = '' @ format_f ONE_4PI_EPS0 @ '';'' \<and>
            energyFunction copied = energyFunction direct)"
proof (rule conjI)
  let ?c = "getCutoffDistance nb" and ?d = "getReactionFieldDielectric nb"
  have c: "dvalue ?c \<noteq> 0"
    using assms(1) by (simp add: nonbonded_force_cutoff)
  have d: "2 * ?d + 1 \<noteq> 0"
    using assms(2) by (simp add: getReactionFieldDielectric_def)
  obtain k where k: "UnshiftedReactionFieldForce_k_rf ?c ?d = Inr k"
    "value_in_md_unit_system k = k_rf_formula (distance_in_nanometers ?c) ?d"
    using Unshifted_k_rf_md [OF c d] by blast
  note direct = Unshifted_init_Inr [OF c d, of ONE_4PI_EPS0 sw]
  note direct' = Unshifted_init_Inr [OF c d, of ONE_4PI_EPS0 sw']
  note copied = Unshifted_from_nonbonded_force_Inr [OF direct']
  show "\<exists>k direct copied.
      UnshiftedReactionFieldForce_k_rf ?c ?d = Inr k \<and>
      UnshiftedReactionFieldForce_init ONE_4PI_EPS0 ?c sw ?d = Inr direct \<and>
      UnshiftedReactionFieldForce_from_nonbonded_force ONE_4PI_EPS0 (Some nb) sw' = Inr copied \<and>
      energyFunction direct =
        ''ONE_4PI_EPS0*chargeprod*(r^(-1) + k_rf*r^2);chargeprod = charge1*charge2;'' @
        ''k_rf = '' @ format_f (value_in_md_unit_system k) @ '';'' @
        ''ONE_4PI_EPS0 = '' @ format_f ONE_4PI_EPS0 @ '';'' \<and>
      energyFunction copied = energyFunction direct"
    using k(1) by (simp add: direct copied k(2))
  obtain k where k: "SwitchedReactionFieldForce_k_rf ?c ?d = Inr k"
    "value_in_md_unit_system k = k_rf_formula (distance_in_nanometers ?c) ?d"
    using Switched_k_rf_md [OF c d] by blast
  obtain q where q: "SwitchedReactionFieldForce_c_rf ?c ?d = Inr q"
    "value_in_md_unit_system q = c_rf_formula (distance_in_nanometers ?c) ?d"
    using Switched_c_rf_md [OF c d] by blast
  note direct = Switched_init_Inr [OF c d, of ONE_4PI_EPS0 sw]
  note direct' = Switched_init_Inr [OF c d, of ONE_4PI_EPS0 sw']
  note copied = Switched_from_nonbonded_force_Inr [OF direct']
  show "\<exists>k q direct copied.
      SwitchedReactionFieldForce_k_rf ?c ?d = Inr k \<and>
      SwitchedReactionFieldForce_c_rf ?c ?d = Inr q \<and>
      SwitchedReactionFieldForce_init ONE_4PI_EPS0 ?c sw ?d = Inr direct \<and>
      SwitchedReactionFieldForce_from_nonbonded_force ONE_4PI_EPS0 (Some nb) sw' = Inr copied \<and>
      energyFunction direct =
        ''ONE_4PI_EPS0*chargeprod*(r^(-1) + k_rf*r^2 - c_rf);chargeprod = charge1*charge2;'' @
        ''k_rf = '' @ format_f (value_in_md_unit_system k) @ '';'' @
        ''c_rf = '' @ format_f (value_in_md_unit_system q) @ '';'' @
        ''ONE_4PI_EPS0 = '' @ format_f ONE_4PI_EPS0 @ '';'' \<and>
      energyFunction copied = energyFunction direct"
    using k(1) q(1) by (simp add: direct copied k(2) q(2))
qed

theorem round_trip_same_quantity_witness:
  "stored_nanometers \<lparr>significand = 12, exponent = 0\<rparr> angstrom = 1351079888211149 / 2 ^ 50 \<and>
   (\<exists>direct copied.
      UnshiftedReactionFieldForce_init (138935456 / 10 ^ 6)
        \<lparr>dvalue = stored_nanometers \<lparr>significand = 12, exponent = 0\<rparr> angstrom, dunit = nanometer\<rparr>
        (Some \<lparr>dvalue = 1, dunit = angstrom\<rparr>) 80 = Inr direct \<and>
      UnshiftedReactionFieldForce_from_nonbonded_force (138935456 / 10 ^ 6)
        (Some \<lparr>nb_cutoffDistance = stored_nanometers \<lparr>significand = 12, exponent = 0\<rparr> angstrom,
               nb_reactionFieldDielectric = 80,
               nb_particles = [(1, 3 / 10, 1 / 2), (- 1, 3 / 10, 1 / 2), (1 / 2, 1 / 4, 1)],
               nb_exceptions = [(0, 1, 0, 1, 0)]\<rparr>)
        (Some \<lparr>dvalue = 1, dunit = angstrom\<rparr>) = Inr copied \<and>
      energyFunction direct =
        ''ONE_4PI_EPS0*chargeprod*(r^(-1) + k_rf*r^2);chargeprod = charge1*charge2;k_rf = 0.283960;ONE_4PI_EPS0 = 138.935456;'' \<and>
      energyFunction copied = energyFunction direct) \<and>
   (\<exists>direct copied.
      SwitchedReactionFieldForce_init (138935456 / 10 ^ 6)
        \<lparr>dvalue = stored_nanometers \<lparr>significand = 12, exponent = 0\<rparr> angstrom, dunit = nanometer\<rparr>
        (Some \<lparr>dvalue = 1, dunit = angstrom\<rparr>) 80 = Inr direct \<and>
      SwitchedReactionFieldForce_from_nonbonded_force (138935456 / 10 ^ 6)
        (Some \<lparr>nb_cutoffDistance = stored_nanometers \<lparr>significand = 12, exponent = 0\<rparr> angstrom,
               nb_reactionFieldDielectric = 80,
               nb_particles = [(1, 3 / 10, 1 / 2), (- 1, 3 / 10, 1 / 2), (1 / 2, 1 / 4, 1)],
               nb_exceptions = [(0, 1, 0, 1, 0)]\<rparr>)
        (Some \<lparr>dvalue = 1, dunit = angstrom\<rparr>) = Inr copied \<and>
      energyFunction direct =
        ''ONE_4PI_EPS0*chargeprod*(r^(-1) + k_rf*r^2 - c_rf);chargeprod = charge1*charge2;k_rf = 0.283960;c_rf = 1.242236;ONE_4PI_EPS0 = 138.935456;'' \<and>
      energyFunction copied = energyFunction direct)"
proof -
  let ?x = "stored_nanometers \<lparr>significand = 12, exponent = 0\<rparr> angstrom"
  let ?nb = "\<lparr>nb_cutoffDistance = ?x, nb_reactionFieldDielectric = 80,
      nb_particles = [(1, 3 / 10, 1 / 2), (- 1, 3 / 10, 1 / 2), (1 / 2, 1 / 4, 1)],
      nb_exceptions = [(0, 1, 0, 1, 0)]\<rparr>"
  let ?ONE = "138935456 / 10 ^ 6 :: real"
  let ?w = "Some \<lparr>dvalue = 1, dunit = angstrom\<rparr>"
  have s: "?x = 1351079888211149 / 2 ^ 50"
    by (rule stored_twelve_angstrom)
  have h1: "nb_cutoffDistance ?nb \<noteq> 0"
    by (simp add: s del: stored_nanometers.simps)
  have h2: "2 * nb_reactionFieldDielectric ?nb + 1 \<noteq> 0"
    by simp
  have g: "getCutoffDistance ?nb = \<lparr>dvalue = ?x, dunit = nanometer\<rparr>"
    "getReactionFieldDielectric ?nb = 80"
    by (simp_all add: getCutoffDistance_def getReactionFieldDielectric_def del: stored_nanometers.simps)
  have n: "distance_in_nanometers \<lparr>dvalue = ?x, dunit = nanometer\<rparr> = 1351079888211149 / 2 ^ 50"
    by (simp add: distance_in_nanometers_def s del: stored_nanometers.simps)
  have c: "dvalue \<lparr>dvalue = ?x, dunit = nanometer\<rparr> \<noteq> 0"
    by (simp add: s del: stored_nanometers.simps)
  have d: "2 * (80::real) + 1 \<noteq> 0"
    by simp
  note t = round_trip_same_quantity [OF h1 h2, of ?ONE ?w ?w, unfolded g]
  obtain k direct copied where u:
    "UnshiftedReactionFieldForce_k_rf \<lparr>dvalue = ?x, dunit = nanometer\<rparr> 80 = Inr k"
    "UnshiftedReactionFieldForce_init ?ONE \<lparr>dvalue = ?x, dunit = nanometer\<rparr> ?w 80 = Inr direct"
    "UnshiftedReactionFieldForce_from_nonbonded_force ?ONE (Some ?nb) ?w = Inr copied"
    "energyFunction direct =
       ''ONE_4PI_EPS0*chargeprod*(r^(-1) + k_rf*r^2);chargeprod = charge1*charge2;'' @
       ''k_rf = '' @ format_f (value_in_md_unit_system k) @ '';'' @
       ''ONE_4PI_EPS0 = '' @ format_f ?ONE @ '';''"
    "energyFunction copied = energyFunction direct"
    using t by blast
  have uk: "value_in_md_unit_system k = k_rf_formula (1351079888211149 / 2 ^ 50) 80"
    using Unshifted_k_rf_md [OF c d] u(1) unfolding n by auto
  have ue: "energyFunction direct =
      ''ONE_4PI_EPS0*chargeprod*(r^(-1) + k_rf*r^2);chargeprod = charge1*charge2;k_rf = 0.283960;ONE_4PI_EPS0 = 138.935456;''"
    unfolding u(4) uk literals_twelve coulomb_literal by simp
  obtain k' q' direct' copied' where v:
    "SwitchedReactionFieldForce_k_rf \<lparr>dvalue = ?x, dunit = nanometer\<rparr> 80 = Inr k'"
    "SwitchedReactionFieldForce_c_rf \<lparr>dvalue = ?x, dunit = nanometer\<rparr> 80 = Inr q'"
    "SwitchedReactionFieldForce_init ?ONE \<lparr>dvalue = ?x, dunit = nanometer\<rparr> ?w 80 = Inr direct'"
    "SwitchedReactionFieldForce_from_nonbonded_force ?ONE (Some ?nb) ?w = Inr copied'"
    "energyFunction direct' =
       ''ONE_4PI_EPS0*chargeprod*(r^(-1) + k_rf*r^2 - c_rf);chargeprod = charge1*charge2;'' @
       ''k_rf = '' @ format_f (value_in_md_unit_system k') @ '';'' @
       ''c_rf = '' @ format_f (value_in_md_unit_system q') @ '';'' @
       ''ONE_4PI_EPS0 = '' @ format_f ?ONE @ '';''"
    "energyFunction copied' = energyFunction direct'"
    using t by blast
  have vk: "value_in_md_unit_system k' = k_rf_formula (1351079888211149 / 2 ^ 50) 80"
    using Switched_k_rf_md [OF c d] v(1) unfolding n by auto
  have vq: "value_in_md_unit_system q' = c_rf_formula (1351079888211149 / 2 ^ 50) 80"
    using Switched_c_rf_md [OF c d] v(2) unfolding n by auto
  have ve: "energyFunction direct' =
      ''ONE_4PI_EPS0*chargeprod*(r^(-1) + k_rf*r^2 - c_rf);chargeprod = charge1*charge2;k_rf = 0.283960;c_rf = 1.242236;ONE_4PI_EPS0 = 138.935456;''"
    unfolding v(5) vk vq literals_twelve coulomb_literal by simp
  show ?thesis
    using s u(2,3,5) ue v(3,4,6) ve by blast
qed

text \<open>
  C10. Neither constructor compares the switch width with the cutoff: for every switch
  width that is not \<open>None\<close> the constructor returns a force with the switching function
  on and the switching distance cutoff minus switch width, which is negative when the
  switch width exceeds the cutoff and exceeds the cutoff when the switch width is
  negative. The only errors of the constructors, for a cutoff of zero or a dielectric
  of -1/2, do not depend on the switch width (lemmas \<open>Unshifted_init_Inl\<close> and
  \<open>Switched_init_Inl\<close>).
\<close>

theorem switch_width_unchecked:
  assumes "dvalue c \<noteq> 0" and "2 * d + 1 \<noteq> 0"
  shows "(\<exists>rf. UnshiftedReactionFieldForce_init ONE_4PI_EPS0 c (Some w) d = Inr rf \<and>
            useSwitchingFunction rf \<and>
            cutoffDistance rf = distance_in_nanometers c \<and>
            switchingDistance rf = distance_in_nanometers c - distance_in_nanometers w \<and>
            (distance_in_nanometers c < distance_in_nanometers w \<longrightarrow> switchingDistance rf < 0) \<and>
            (distance_in_nanometers w < 0 \<longrightarrow> cutoffDistance rf < switchingDistance rf)) \<and>
         (\<exists>rf. SwitchedReactionFieldForce_init ONE_4PI_EPS0 c (Some w) d = Inr rf \<and>
            useSwitchingFunction rf \<and>
            cutoffDistance rf = distance_in_nanometers c \<and>
            switchingDistance rf = distance_in_nanometers c - distance_in_nanometers w \<and>
            (distance_in_nanometers c < distance_in_nanometers w \<longrightarrow> switchingDistance rf < 0) \<and>
            (distance_in_nanometers w < 0 \<longrightarrow> cutoffDistance rf < switchingDistance rf))"
  by (simp add: Unshifted_init_Inr [OF assms] Switched_init_Inr [OF assms])

theorem switch_width_unchecked_witness:
  "(\<exists>rf. UnshiftedReactionFieldForce_init (138935456 / 10 ^ 6) \<lparr>dvalue = 1, dunit = nanometer\<rparr>
            (Some \<lparr>dvalue = 25, dunit = angstrom\<rparr>) 80 = Inr rf \<and>
          useSwitchingFunction rf \<and> cutoffDistance rf = 1 \<and> switchingDistance rf = - 3 / 2) \<and>
   (\<exists>rf. SwitchedReactionFieldForce_init (138935456 / 10 ^ 6) \<lparr>dvalue = 1, dunit = nanometer\<rparr>
            (Some \<lparr>dvalue = - 5, dunit = angstrom\<rparr>) 80 = Inr rf \<and>
          useSwitchingFunction rf \<and> cutoffDistance rf = 1 \<and> switchingDistance rf = 3 / 2)"
proof (rule conjI)
  let ?c = "\<lparr>dvalue = 1, dunit = nanometer\<rparr>"
  have c: "dvalue ?c \<noteq> 0"
    by simp
  have d: "2 * (80::real) + 1 \<noteq> 0"
    by simp
  let ?w = "\<lparr>dvalue = 25, dunit = angstrom\<rparr>"
  obtain rf where "UnshiftedReactionFieldForce_init (138935456 / 10 ^ 6) ?c (Some ?w) 80 = Inr rf"
    "useSwitchingFunction rf" "cutoffDistance rf = distance_in_nanometers ?c"
    "switchingDistance rf = distance_in_nanometers ?c - distance_in_nanometers ?w"
    using switch_width_unchecked [OF c d, of "138935456 / 10 ^ 6" ?w] by blast
  then show "\<exists>rf. UnshiftedReactionFieldForce_init (138935456 / 10 ^ 6) ?c (Some ?w) 80 = Inr rf \<and>
      useSwitchingFunction rf \<and> cutoffDistance rf = 1 \<and> switchingDistance rf = - 3 / 2"
    by (simp add: distance_in_nanometers_def)
  let ?v = "\<lparr>dvalue = - 5, dunit = angstrom\<rparr>"
  obtain rf where "SwitchedReactionFieldForce_init (138935456 / 10 ^ 6) ?c (Some ?v) 80 = Inr rf"
    "useSwitchingFunction rf" "cutoffDistance rf = distance_in_nanometers ?c"
    "switchingDistance rf = distance_in_nanometers ?c - distance_in_nanometers ?v"
    using switch_width_unchecked [OF c d, of "138935456 / 10 ^ 6" ?v] by blast
  then show "\<exists>rf. SwitchedReactionFieldForce_init (138935456 / 10 ^ 6) ?c (Some ?v) 80 = Inr rf \<and>
      useSwitchingFunction rf \<and> cutoffDistance rf = 1 \<and> switchingDistance rf = 3 / 2"
    by (simp add: distance_in_nanometers_def)
qed

subsection \<open>Sign, scaling and limits of the coefficients\<close>

text \<open>
  C8 as stated, that \<open>k_rf\<close> is strictly positive for every positive cutoff and every
  dielectric above zero, fails: at a cutoff of 1 nanometer and a dielectric of 1/2 both
  constructors compute \<open>k_rf = (1/2 - 1) / (2\<cdot>1/2 + 1) = -1/4\<close>.
\<close>

theorem k_rf_negative_counterexample:
  "0 < dvalue \<lparr>dvalue = 1, dunit = nanometer\<rparr> \<and> (0::real) < 1 / 2 \<and>
   UnshiftedReactionFieldForce_k_rf \<lparr>dvalue = 1, dunit = nanometer\<rparr> (1 / 2) =
     Inr \<lparr>qvalue = - 1 / 4, qbase = nanometer, qexp = - 3\<rparr> \<and>
   SwitchedReactionFieldForce_k_rf \<lparr>dvalue = 1, dunit = nanometer\<rparr> (1 / 2) =
     Inr \<lparr>qvalue = - 1 / 4, qbase = nanometer, qexp = - 3\<rparr> \<and>
   value_in_md_unit_system \<lparr>qvalue = - 1 / 4, qbase = nanometer, qexp = - 3\<rparr> = - 1 / 4 \<and>
   \<not> 0 < value_in_md_unit_system \<lparr>qvalue = - 1 / 4, qbase = nanometer, qexp = - 3\<rparr>"
  by (simp add: UnshiftedReactionFieldForce_k_rf_def SwitchedReactionFieldForce_k_rf_def
      distance_pow_def quantity_mul_def quantity_truediv_def value_in_md_unit_system_def)

text \<open>
  C8, amended. For every positive cutoff and every dielectric above zero, both
  constructors compute a \<open>k_rf\<close> that scales as cutoff^-3 (the value at the cutoff
  multiplied by \<open>a > 0\<close> is \<open>a^-3\<close> times the value at the cutoff) and has the sign of
  dielectric - 1: strictly positive for a dielectric above 1, zero at 1, strictly
  negative below 1.
\<close>

theorem k_rf_sign_and_scaling:
  assumes "0 < dvalue c" and "0 < d" and "0 < a"
  shows "(\<exists>k k'. UnshiftedReactionFieldForce_k_rf c d = Inr k \<and>
            UnshiftedReactionFieldForce_k_rf (c\<lparr>dvalue := a * dvalue c\<rparr>) d = Inr k' \<and>
            value_in_md_unit_system k' = a powi (- 3) * value_in_md_unit_system k \<and>
            (1 < d \<longrightarrow> 0 < value_in_md_unit_system k) \<and>
            (d = 1 \<longrightarrow> value_in_md_unit_system k = 0) \<and>
            (d < 1 \<longrightarrow> value_in_md_unit_system k < 0)) \<and>
         (\<exists>k k'. SwitchedReactionFieldForce_k_rf c d = Inr k \<and>
            SwitchedReactionFieldForce_k_rf (c\<lparr>dvalue := a * dvalue c\<rparr>) d = Inr k' \<and>
            value_in_md_unit_system k' = a powi (- 3) * value_in_md_unit_system k \<and>
            (1 < d \<longrightarrow> 0 < value_in_md_unit_system k) \<and>
            (d = 1 \<longrightarrow> value_in_md_unit_system k = 0) \<and>
            (d < 1 \<longrightarrow> value_in_md_unit_system k < 0))"
proof -
  have c: "dvalue c \<noteq> 0" and c': "dvalue (c\<lparr>dvalue := a * dvalue c\<rparr>) \<noteq> 0"
    and d: "2 * d + 1 \<noteq> 0"
    using assms by simp_all
  have r: "0 < distance_in_nanometers c"
    using assms(1) by (rule distance_in_nanometers_pos)
  obtain k where k: "UnshiftedReactionFieldForce_k_rf c d = Inr k"
    "value_in_md_unit_system k = k_rf_formula (distance_in_nanometers c) d"
    using Unshifted_k_rf_md [OF c d] by blast
  obtain k' where k': "UnshiftedReactionFieldForce_k_rf (c\<lparr>dvalue := a * dvalue c\<rparr>) d = Inr k'"
    "value_in_md_unit_system k' = k_rf_formula (a * distance_in_nanometers c) d"
    using Unshifted_k_rf_md [OF c' d] by (auto simp only: distance_in_nanometers_scale)
  have s: "value_in_md_unit_system k' = a powi (- 3) * value_in_md_unit_system k"
    by (simp only: k k' k_rf_formula_scale)
  have u: "UnshiftedReactionFieldForce_k_rf c d = Inr k \<and>
      UnshiftedReactionFieldForce_k_rf (c\<lparr>dvalue := a * dvalue c\<rparr>) d = Inr k' \<and>
      value_in_md_unit_system k' = a powi (- 3) * value_in_md_unit_system k \<and>
      (1 < d \<longrightarrow> 0 < value_in_md_unit_system k) \<and>
      (d = 1 \<longrightarrow> value_in_md_unit_system k = 0) \<and>
      (d < 1 \<longrightarrow> value_in_md_unit_system k < 0)"
    using k(1) k'(1) s k_rf_formula_sign [OF r assms(2)] by (simp only: k(2))
  then have "SwitchedReactionFieldForce_k_rf c d = Inr k \<and>
      SwitchedReactionFieldForce_k_rf (c\<lparr>dvalue := a * dvalue c\<rparr>) d = Inr k' \<and>
      value_in_md_unit_system k' = a powi (- 3) * value_in_md_unit_system k \<and>
      (1 < d \<longrightarrow> 0 < value_in_md_unit_system k) \<and>
      (d = 1 \<longrightarrow> value_in_md_unit_system k = 0) \<and>
      (d < 1 \<longrightarrow> value_in_md_unit_system k < 0)"
    by (simp add: Switched_k_rf_eq)
  with u show ?thesis
    by blast
qed

theorem k_rf_sign_and_scaling_witness:
  "(\<exists>k k'. UnshiftedReactionFieldForce_k_rf \<lparr>dvalue = 12, dunit = angstrom\<rparr> 80 = Inr k \<and>
      UnshiftedReactionFieldForce_k_rf \<lparr>dvalue = 24, dunit = angstrom\<rparr> 80 = Inr k' \<and>
      value_in_md_unit_system k' = 1 / 8 * value_in_md_unit_system k \<and>
      0 < value_in_md_unit_system k) \<and>
   (\<exists>k k'. SwitchedReactionFieldForce_k_rf \<lparr>dvalue = 12, dunit = angstrom\<rparr> 80 = Inr k \<and>
      SwitchedReactionFieldForce_k_rf \<lparr>dvalue = 24, dunit = angstrom\<rparr> 80 = Inr k' \<and>
      value_in_md_unit_system k' = 1 / 8 * value_in_md_unit_system k \<and>
      0 < value_in_md_unit_system k)"
proof -
  let ?c = "\<lparr>dvalue = 12, dunit = angstrom\<rparr>"
  have h: "0 < dvalue ?c" "(0::real) < 80" "(0::real) < 2"
    by simp_all
  have p: "(2::real) powi (- 3) = 1 / 8"
    by (simp add: power_int_minus)
  show ?thesis
    using k_rf_sign_and_scaling [OF h] by (simp add: p)
qed

text \<open>
  C9. For the switched constructor and a positive cutoff, \<open>c_rf\<close> is strictly positive
  for every dielectric above zero and scales as cutoff^-1; as the dielectric tends to
  infinity at a fixed cutoff, \<open>c_rf\<close> tends to cutoff^-1 \<cdot> 1.5 and \<open>k_rf\<close> to
  cutoff^-3 \<cdot> 0.5 (values in the MD unit system, the cutoff in nanometers). The
  functions \<open>c_rf\<close> and \<open>k_rf\<close> of the statement are the values the constructor computes
  at each dielectric above zero.
\<close>

theorem c_rf_positive_scaling_limits:
  assumes "0 < dvalue c"
  shows "\<exists>c_rf k_rf.
           (\<forall>d a. 0 < d \<longrightarrow> 0 < a \<longrightarrow>
              (\<exists>q q' k. SwitchedReactionFieldForce_c_rf c d = Inr q \<and>
                 value_in_md_unit_system q = c_rf d \<and> 0 < c_rf d \<and>
                 SwitchedReactionFieldForce_c_rf (c\<lparr>dvalue := a * dvalue c\<rparr>) d = Inr q' \<and>
                 value_in_md_unit_system q' = a powi (- 1) * c_rf d \<and>
                 SwitchedReactionFieldForce_k_rf c d = Inr k \<and>
                 value_in_md_unit_system k = k_rf d)) \<and>
           (c_rf \<longlongrightarrow> distance_in_nanometers c powi (- 1) * (3 / 2)) at_top \<and>
           (k_rf \<longlongrightarrow> distance_in_nanometers c powi (- 3) * (1 / 2)) at_top"
proof (rule exI [of _ "c_rf_formula (distance_in_nanometers c)"],
    rule exI [of _ "k_rf_formula (distance_in_nanometers c)"], intro conjI allI impI)
  fix d a :: real
  assume d: "0 < d" and a: "0 < a"
  have c: "dvalue c \<noteq> 0" and c': "dvalue (c\<lparr>dvalue := a * dvalue c\<rparr>) \<noteq> 0"
    and e: "2 * d + 1 \<noteq> 0"
    using assms d a by simp_all
  obtain q where q: "SwitchedReactionFieldForce_c_rf c d = Inr q"
    "value_in_md_unit_system q = c_rf_formula (distance_in_nanometers c) d"
    using Switched_c_rf_md [OF c e] by blast
  obtain q' where q': "SwitchedReactionFieldForce_c_rf (c\<lparr>dvalue := a * dvalue c\<rparr>) d = Inr q'"
    "value_in_md_unit_system q' = c_rf_formula (a * distance_in_nanometers c) d"
    using Switched_c_rf_md [OF c' e] by (auto simp only: distance_in_nanometers_scale)
  obtain k where k: "SwitchedReactionFieldForce_k_rf c d = Inr k"
    "value_in_md_unit_system k = k_rf_formula (distance_in_nanometers c) d"
    using Switched_k_rf_md [OF c e] by blast
  have p: "0 < c_rf_formula (distance_in_nanometers c) d"
    using distance_in_nanometers_pos [OF assms] d by (rule c_rf_formula_pos)
  show "\<exists>q q' k. SwitchedReactionFieldForce_c_rf c d = Inr q \<and>
      value_in_md_unit_system q = c_rf_formula (distance_in_nanometers c) d \<and>
      0 < c_rf_formula (distance_in_nanometers c) d \<and>
      SwitchedReactionFieldForce_c_rf (c\<lparr>dvalue := a * dvalue c\<rparr>) d = Inr q' \<and>
      value_in_md_unit_system q' = a powi (- 1) * c_rf_formula (distance_in_nanometers c) d \<and>
      SwitchedReactionFieldForce_k_rf c d = Inr k \<and>
      value_in_md_unit_system k = k_rf_formula (distance_in_nanometers c) d"
    using q q' k p by (simp only: c_rf_formula_scale) blast
next
  show "(c_rf_formula (distance_in_nanometers c) \<longlongrightarrow>
      distance_in_nanometers c powi (- 1) * (3 / 2)) at_top"
    by (rule c_rf_formula_limit)
next
  show "(k_rf_formula (distance_in_nanometers c) \<longlongrightarrow>
      distance_in_nanometers c powi (- 3) * (1 / 2)) at_top"
    by (rule k_rf_formula_limit)
qed

theorem c_rf_positive_scaling_limits_witness:
  "\<exists>(c_rf :: real \<Rightarrow> real) (k_rf :: real \<Rightarrow> real).
     (\<exists>q q' k. SwitchedReactionFieldForce_c_rf \<lparr>dvalue = 12, dunit = angstrom\<rparr> 80 = Inr q \<and>
        value_in_md_unit_system q = c_rf 80 \<and> 0 < c_rf 80 \<and>
        SwitchedReactionFieldForce_c_rf \<lparr>dvalue = 24, dunit = angstrom\<rparr> 80 = Inr q' \<and>
        value_in_md_unit_system q' = 1 / 2 * c_rf 80 \<and>
        SwitchedReactionFieldForce_k_rf \<lparr>dvalue = 12, dunit = angstrom\<rparr> 80 = Inr k \<and>
        value_in_md_unit_system k = k_rf 80) \<and>
     (c_rf \<longlongrightarrow> 5 / 4) at_top \<and> (k_rf \<longlongrightarrow> 125 / 432) at_top"
proof -
  let ?c = "\<lparr>dvalue = 12, dunit = angstrom\<rparr>"
  have h: "0 < dvalue ?c"
    by simp
  obtain c_rf k_rf where t:
    "\<forall>d a. 0 < d \<longrightarrow> 0 < a \<longrightarrow>
       (\<exists>q q' k. SwitchedReactionFieldForce_c_rf ?c d = Inr q \<and>
          value_in_md_unit_system q = c_rf d \<and> 0 < c_rf d \<and>
          SwitchedReactionFieldForce_c_rf (?c\<lparr>dvalue := a * dvalue ?c\<rparr>) d = Inr q' \<and>
          value_in_md_unit_system q' = a powi (- 1) * c_rf d \<and>
          SwitchedReactionFieldForce_k_rf ?c d = Inr k \<and>
          value_in_md_unit_system k = k_rf d)"
    "(c_rf \<longlongrightarrow> distance_in_nanometers ?c powi (- 1) * (3 / 2)) at_top"
    "(k_rf \<longlongrightarrow> distance_in_nanometers ?c powi (- 3) * (1 / 2)) at_top"
    using c_rf_positive_scaling_limits [OF h] by blast
  have l: "distance_in_nanometers ?c powi (- 1) * (3 / 2) = 5 / 4"
    "distance_in_nanometers ?c powi (- 3) * (1 / 2) = 125 / 432"
    by (simp_all add: distance_in_nanometers_def power_int_minus power_divide)
  have "\<exists>q q' k. SwitchedReactionFieldForce_c_rf ?c 80 = Inr q \<and>
      value_in_md_unit_system q = c_rf 80 \<and> 0 < c_rf 80 \<and>
      SwitchedReactionFieldForce_c_rf (?c\<lparr>dvalue := 2 * dvalue ?c\<rparr>) 80 = Inr q' \<and>
      value_in_md_unit_system q' = 2 powi (- 1) * c_rf 80 \<and>
      SwitchedReactionFieldForce_k_rf ?c 80 = Inr k \<and>
      value_in_md_unit_system k = k_rf 80"
    using t(1) [rule_format, of 80 2] by simp
  then have "\<exists>q q' k. SwitchedReactionFieldForce_c_rf ?c 80 = Inr q \<and>
      value_in_md_unit_system q = c_rf 80 \<and> 0 < c_rf 80 \<and>
      SwitchedReactionFieldForce_c_rf \<lparr>dvalue = 24, dunit = angstrom\<rparr> 80 = Inr q' \<and>
      value_in_md_unit_system q' = 1 / 2 * c_rf 80 \<and>
      SwitchedReactionFieldForce_k_rf ?c 80 = Inr k \<and>
      value_in_md_unit_system k = k_rf 80"
    by (simp add: power_int_minus)
  then show ?thesis
    using t(2,3) unfolding l by blast
qed

end
